theory Spec2Isabelle
  imports Complex_Main "HOL-Library.Log_Nat"
begin

section \<open>Python values\<close>

text \<open>
  The front end is Python. Exceptions are values of the type \<open>error\<close>; a computation
  that may raise returns \<open>error + 'a\<close>, with \<open>Inl\<close> for the exception.
\<close>

datatype error =
    ZeroDivisionError
  | OverflowError
  | ValueError
  | TypeError
  | KeyError string
  | AttributeError string
  | FileNotFoundError
  | SystemExit int
  | ExportFormatError
  | TelemetryParseError
  | PipelineIOError

subsection \<open>Floating point numbers\<close>

text \<open>
  A Python \<^verbatim>\<open>float\<close> is an IEEE 754 binary64 number. A finite one is the rational it
  denotes; the sign of zero is not kept (it shows only in the sign a zero is printed
  with). Every operation rounds the exact result to the nearest representable number,
  ties to the even significand: 53 significant bits, the smallest exponent \<open>-1022\<close>
  (below it the spacing stays \<open>2 powi -1074\<close>), and a rounded magnitude of
  \<open>2 ^ 1024\<close> or more overflows.
\<close>

datatype pyfloat = Fin rat | PInf | NInf | NaN

definition ilog2 :: "rat \<Rightarrow> int" where
  \<comment> \<open>for \<open>0 < x\<close>, the exponent \<open>e\<close> with \<open>2 powi e \<le> x < 2 powi (e + 1)\<close>\<close>
  "ilog2 x =
     (let (p, q) = quotient_of x; d = bitlen p - bitlen q
      in if 2 powi d \<le> x then d else d - 1)"

definition round_half_even :: "rat \<Rightarrow> int" where
  "round_half_even y =
     (let n = \<lfloor>y\<rfloor>; r = y - of_int n
      in if r < 1 / 2 then n else if 1 / 2 < r then n + 1
         else if even n then n else n + 1)"

definition fl_round :: "rat \<Rightarrow> pyfloat" where
  "fl_round x =
     (if x = 0 then Fin 0
      else let k = max (ilog2 \<bar>x\<bar>) (- 1022) - 52;
               r = of_int (round_half_even (x / 2 powi k)) * 2 powi k
           in if 2 ^ 1024 \<le> \<bar>r\<bar> then (if 0 < x then PInf else NInf) else Fin r)"

definition int_to_float :: "int \<Rightarrow> error + pyfloat" where
  \<comment> \<open>\<^verbatim>\<open>float(i)\<close>, also the conversion of the integer operand of a mixed operation\<close>
  "int_to_float i =
     (case fl_round (of_int i) of Fin r \<Rightarrow> Inr (Fin r) | _ \<Rightarrow> Inl OverflowError)"

definition int_truediv :: "int \<Rightarrow> int \<Rightarrow> error + pyfloat" where
  \<comment> \<open>\<^verbatim>\<open>a / b\<close> on two integers: the correctly rounded quotient\<close>
  "int_truediv a b =
     (if b = 0 then Inl ZeroDivisionError
      else case fl_round (of_int a / of_int b) of
             Fin r \<Rightarrow> Inr (Fin r) | _ \<Rightarrow> Inl OverflowError)"

fun float_mul :: "pyfloat \<Rightarrow> pyfloat \<Rightarrow> pyfloat" where
  "float_mul (Fin a) (Fin b) = fl_round (a * b)"
| "float_mul NaN _ = NaN"
| "float_mul _ NaN = NaN"
| "float_mul (Fin a) PInf = (if a = 0 then NaN else if 0 < a then PInf else NInf)"
| "float_mul (Fin a) NInf = (if a = 0 then NaN else if 0 < a then NInf else PInf)"
| "float_mul PInf (Fin b) = (if b = 0 then NaN else if 0 < b then PInf else NInf)"
| "float_mul NInf (Fin b) = (if b = 0 then NaN else if 0 < b then NInf else PInf)"
| "float_mul PInf PInf = PInf"
| "float_mul PInf NInf = NInf"
| "float_mul NInf PInf = NInf"
| "float_mul NInf NInf = PInf"

definition int_mul_float :: "int \<Rightarrow> pyfloat \<Rightarrow> error + pyfloat" where
  \<comment> \<open>\<^verbatim>\<open>i * x\<close>: the integer is converted first\<close>
  "int_mul_float i x =
     (case int_to_float i of Inl e \<Rightarrow> Inl e | Inr y \<Rightarrow> Inr (float_mul y x))"

definition float_to_int :: "pyfloat \<Rightarrow> error + int" where
  \<comment> \<open>\<^verbatim>\<open>int(x)\<close> truncates towards zero\<close>
  "float_to_int x =
     (case x of
        Fin r \<Rightarrow> Inr (if 0 \<le> r then \<lfloor>r\<rfloor> else \<lceil>r\<rceil>)
      | NaN \<Rightarrow> Inl ValueError
      | _ \<Rightarrow> Inl OverflowError)"

definition float_lit :: "rat \<Rightarrow> pyfloat" where
  \<comment> \<open>a decimal literal of the source text denotes the nearest float\<close>
  "float_lit x = fl_round x"

subsection \<open>Dynamically typed values and strings\<close>

datatype pyval = VNone | VBool bool | VInt int | VFloat pyfloat | VStr string

fun truthy :: "pyval \<Rightarrow> bool" where
  "truthy VNone = False"
| "truthy (VBool b) = b"
| "truthy (VInt i) = (i \<noteq> 0)"
| "truthy (VFloat x) = (x \<noteq> Fin 0)"
| "truthy (VStr s) = (s \<noteq> [])"

definition str_mul :: "string \<Rightarrow> int \<Rightarrow> string" where
  \<comment> \<open>\<^verbatim>\<open>s * n\<close>: a count below one gives the empty string\<close>
  "str_mul s n = concat (replicate (nat n) s)"

definition to_upper :: "char \<Rightarrow> char" where
  "to_upper c =
     (case map_of (zip ''abcdefghijklmnopqrstuvwxyz'' ''ABCDEFGHIJKLMNOPQRSTUVWXYZ'') c of
        Some u \<Rightarrow> u | None \<Rightarrow> c)"

definition upper :: "string \<Rightarrow> string" where
  \<comment> \<open>\<^verbatim>\<open>str.upper\<close> on ASCII text; characters outside ASCII are left as they are\<close>
  "upper s = map to_upper s"

definition rfind :: "string \<Rightarrow> char \<Rightarrow> int" where
  \<comment> \<open>the last index of \<open>c\<close> in \<open>s\<close>, or \<open>-1\<close>\<close>
  "rfind s c =
     (if c \<in> set s
      then int (length s) - 1 - int (length (takeWhile (\<lambda>x. x \<noteq> c) (rev s)))
      else - 1)"

fun split_on :: "char \<Rightarrow> string \<Rightarrow> string list" where
  "split_on sep [] = [[]]"
| "split_on sep (c # cs) =
     (if c = sep then [] # split_on sep cs
      else (case split_on sep cs of p # ps \<Rightarrow> (c # p) # ps | [] \<Rightarrow> [[c]]))"

definition newline :: string where
  "newline = [CHR 0x0A]"

definition carriage_return :: string where
  "carriage_return = [CHR 0x0D]"

section \<open>Paths\<close>

text \<open>
  \<^verbatim>\<open>pathlib.Path\<close> on a POSIX system (Python 3.11): a path is its root (\<open>''''\<close>,
  \<open>''/''\<close> or \<open>''//''\<close>) and its components; the constructor drops empty and
  \<open>''.''\<close> components.
\<close>

datatype path = PosixPath (anchor: string) (tail: "string list")

definition splitroot :: "string \<Rightarrow> string \<times> string" where
  "splitroot part =
     (if part \<noteq> [] \<and> hd part = CHR ''/'' then
        let stripped_part = dropWhile (\<lambda>c. c = CHR ''/'') part
        in if length part - length stripped_part = 2 then (''//'', stripped_part)
           else (''/'', stripped_part)
      else ([], part))"

definition Path :: "string \<Rightarrow> path" where
  "Path s =
     (let (r, rel) = splitroot s
      in PosixPath r (filter (\<lambda>x. x \<noteq> [] \<and> x \<noteq> ''.'') (split_on CHR ''/'' rel)))"

definition name :: "path \<Rightarrow> string" where
  "name p = (if tail p = [] then [] else last (tail p))"

definition suffix :: "path \<Rightarrow> string" where
  "suffix p =
     (let i = rfind (name p) CHR ''.''
      in if 0 < i \<and> i < int (length (name p)) - 1 then drop (nat i) (name p) else [])"

definition stem :: "path \<Rightarrow> string" where
  "stem p =
     (let i = rfind (name p) CHR ''.''
      in if 0 < i \<and> i < int (length (name p)) - 1 then take (nat i) (name p)
         else name p)"

definition with_name :: "path \<Rightarrow> string \<Rightarrow> error + path" where
  "with_name p nm =
     (if name p = [] then Inl ValueError
      else let q = Path nm
           in if nm = [] \<or> last nm = CHR ''/'' \<or> anchor q \<noteq> [] \<or> length (tail q) \<noteq> 1
              then Inl ValueError
              else Inr (PosixPath (anchor p) (butlast (tail p) @ [nm])))"

definition with_suffix :: "path \<Rightarrow> string \<Rightarrow> error + path" where
  "with_suffix p sfx =
     (if CHR ''/'' \<in> set sfx then Inl ValueError
      else if (sfx \<noteq> [] \<and> hd sfx \<noteq> CHR ''.'') \<or> sfx = ''.'' then Inl ValueError
      else if name p = [] then Inl ValueError
      else let nm = (if suffix p = [] then name p @ sfx
                     else take (length (name p) - length (suffix p)) (name p) @ sfx)
           in Inr (PosixPath (anchor p) (butlast (tail p) @ [nm])))"

definition Path_of :: "pyval \<Rightarrow> error + path" where
  \<comment> \<open>\<^verbatim>\<open>Path(v)\<close> accepts a string only\<close>
  "Path_of v = (case v of VStr s \<Rightarrow> Inr (Path s) | _ \<Rightarrow> Inl TypeError)"

section \<open>The telemetry data model\<close>

text \<open>
  The command line front end \<^verbatim>\<open>dji_telemetry/cli.py\<close> works on a parsed telemetry
  track. The classes of the track are not part of the front end; the records below
  follow the data model of the specification: a frame carries its time range and
  optional measurements, a track owns the ordered frames and the summary values
  the front end prints.
\<close>

record telemetry_frame =
  start_time_s :: rat
  end_time_s :: rat
  latitude :: "rat option"
  longitude :: "rat option"
  altitude_m :: "rat option"
  horizontal_speed_mps :: "rat option"
  vertical_speed_mps :: "rat option"
  iso :: "int option"
  shutter :: "string option"
  f_number :: "rat option"
  exposure_bias :: "rat option"
  capture_timestamp :: "string option"
  satellite_count :: "int option"

record telemetry =
  frames :: "telemetry_frame list"
  duration_seconds :: pyfloat
  max_altitude :: pyfloat
  max_speed :: pyfloat
  total_distance :: pyfloat
  start_coordinates :: "(pyfloat \<times> pyfloat) option"
  end_coordinates :: "(pyfloat \<times> pyfloat) option"

text \<open>
  The overlay configuration: the seven toggles and the gauge scale of the
  specification. The value of the gauge scale is whatever the caller passes.
\<close>

record overlay_config =
  show_altitude :: bool
  show_speed :: bool
  show_vertical_speed :: bool
  show_coordinates :: bool
  show_camera_settings :: bool
  show_timestamp :: bool
  show_speed_gauge :: bool
  gauge_max_speed_kmh :: pyval

section \<open>Time-indexed sampling\<close>

text \<open>
  Modelled from the spec: \<^verbatim>\<open>TelemetryTrack.sample\<close> is missing from the sources at
  hand. The specification clamps a timestamp at or before the first frame's start to the
  first frame and a timestamp at or after the last frame's start to the last frame
  (after the last start no bracketing pair exists, so both readings of "end/start"
  give the last frame); otherwise it scans for the bracketing pair by start time and
  interpolates the continuous fields linearly by the fractional position between the
  two start times, while discrete fields keep the value of the earlier frame.
  Arithmetic is exact (rational), as the specification prefers.
\<close>

definition lerp :: "rat \<Rightarrow> rat \<Rightarrow> rat \<Rightarrow> rat" where
  "lerp a b pos = a + (b - a) * pos"

text \<open>
  A continuous field is optional. The specification does not say what a missing
  value interpolates to; here a value is interpolated only when both bracketing
  frames have one.
\<close>

fun lerp_opt :: "rat option \<Rightarrow> rat option \<Rightarrow> rat \<Rightarrow> rat option" where
  "lerp_opt (Some a) (Some b) pos = Some (lerp a b pos)"
| "lerp_opt _ _ pos = None"

fun bracket :: "rat \<Rightarrow> telemetry_frame list \<Rightarrow> (telemetry_frame \<times> telemetry_frame) option" where
  "bracket t (f # g # rest) =
     (if t < start_time_s g then Some (f, g) else bracket t (g # rest))"
| "bracket t _ = None"

definition interpolate :: "rat \<Rightarrow> telemetry_frame \<Rightarrow> telemetry_frame \<Rightarrow> telemetry_frame" where
  "interpolate t f g =
     (let pos = (t - start_time_s f) / (start_time_s g - start_time_s f)
      in f\<lparr>latitude := lerp_opt (latitude f) (latitude g) pos,
            longitude := lerp_opt (longitude f) (longitude g) pos,
            altitude_m := lerp_opt (altitude_m f) (altitude_m g) pos,
            horizontal_speed_mps :=
              lerp_opt (horizontal_speed_mps f) (horizontal_speed_mps g) pos,
            vertical_speed_mps :=
              lerp_opt (vertical_speed_mps f) (vertical_speed_mps g) pos\<rparr>)"

definition sample :: "telemetry_frame list \<Rightarrow> rat \<Rightarrow> telemetry_frame option" where
  "sample fs t =
     (case fs of
        [] \<Rightarrow> None
      | f # _ \<Rightarrow>
          if t \<le> start_time_s f then Some f
          else if start_time_s (last fs) \<le> t then Some (last fs)
          else map_option (\<lambda>(a, b). interpolate t a b) (bracket t fs))"

text \<open>The three-cue track of the specification's example.\<close>

definition cue :: "rat \<Rightarrow> rat \<Rightarrow> rat \<Rightarrow> telemetry_frame" where
  "cue s e alt =
     \<lparr>start_time_s = s, end_time_s = e, latitude = None, longitude = None,
      altitude_m = Some alt, horizontal_speed_mps = None, vertical_speed_mps = None,
      iso = None, shutter = None, f_number = None, exposure_bias = None,
      capture_timestamp = None, satellite_count = None\<rparr>"

definition three_cue_track :: "telemetry_frame list" where
  "three_cue_track = [cue 0 1 10, cue 1 2 20, cue 2 3 30]"

section \<open>The world of the front end\<close>

text \<open>
  The front end reads and changes files, prints, and calls the package
  \<^verbatim>\<open>dji_telemetry\<close>. Its state is the file system (a map from paths to file
  contents; directories, links and permissions are not modelled, and two paths
  name the same file only when they are equal), what has been written to standard
  output, and the trace of the calls made so far.

  Printed text is kept in pieces: literal text of a format string, and each
  formatted value with its format, so that what is printed can be read back.
\<close>

datatype piece =
    Lit string             \<comment> \<open>literal text\<close>
  | Str string             \<comment> \<open>a string value\<close>
  | Dec int                \<comment> \<open>an integer in decimal\<close>
  | Fixed nat pyfloat      \<comment> \<open>a float with format \<^verbatim>\<open>.nf\<close>\<close>
  | Pth path               \<comment> \<open>a path\<close>
  | Val pyval              \<comment> \<open>a value with the default format\<close>
  | Help                   \<comment> \<open>the help text of the argument parser\<close>
  | Ext string             \<comment> \<open>text printed by the package\<close>

datatype callback = Progress_bar

datatype event =
    Parse_srt path
  | New_OverlayConfig overlay_config
  | Process_video path telemetry path overlay_config "callback option"
  | Generate_overlay_video telemetry path pyval pyval pyval overlay_config "callback option"
  | Generate_overlay_frames telemetry path pyval pyval pyval overlay_config pyval
      "callback option"
  | Add_audio path path path
  | Export telemetry path pyval
  | Get_video_info path

type_synonym filesystem = "path \<Rightarrow> string option"

record state =
  files :: filesystem
  stdout :: "piece list"
  trace :: "event list"

type_synonym 'a prog = "state \<Rightarrow> (error + 'a) \<times> state"

definition ret :: "'a \<Rightarrow> 'a prog" where
  "ret x = (\<lambda>s. (Inr x, s))"

definition raise :: "error \<Rightarrow> 'a prog" where
  "raise e = (\<lambda>s. (Inl e, s))"

definition bindp :: "'a prog \<Rightarrow> ('a \<Rightarrow> 'b prog) \<Rightarrow> 'b prog" where
  "bindp m f = (\<lambda>s. case m s of (Inl e, s') \<Rightarrow> (Inl e, s') | (Inr x, s') \<Rightarrow> f x s')"

definition lift :: "error + 'a \<Rightarrow> 'a prog" where
  "lift r = (\<lambda>s. (r, s))"

definition stdout_write :: "piece list \<Rightarrow> unit prog" where
  "stdout_write ps = (\<lambda>s. (Inr (), s\<lparr>stdout := stdout s @ ps\<rparr>))"

definition print :: "piece list \<Rightarrow> unit prog" where
  "print ps = stdout_write (ps @ [Lit newline])"

definition path_exists :: "path \<Rightarrow> bool prog" where
  "path_exists p = (\<lambda>s. (Inr (files s p \<noteq> None), s))"

definition rename :: "path \<Rightarrow> path \<Rightarrow> unit prog" where
  \<comment> \<open>\<^verbatim>\<open>src.rename(dst)\<close>: replaces an existing file\<close>
  "rename src dst =
     (\<lambda>s. case files s src of
             None \<Rightarrow> (Inl FileNotFoundError, s)
           | Some c \<Rightarrow> (Inr (), s\<lparr>files := ((files s)(src := None))(dst \<mapsto> c)\<rparr>))"

definition unlink :: "path \<Rightarrow> unit prog" where
  "unlink p =
     (\<lambda>s. case files s p of
             None \<Rightarrow> (Inl FileNotFoundError, s)
           | Some c \<Rightarrow> (Inr (), s\<lparr>files := (files s)(p := None)\<rparr>))"

subsection \<open>The imported package\<close>

text \<open>
  What the front end imports from \<^verbatim>\<open>dji_telemetry\<close> is a parameter: each function
  maps the file system to its result (or the exception it raises), the file system
  it leaves, and the text it prints. A call is recorded in the trace with its
  arguments. The class \<^verbatim>\<open>OverlayConfig\<close> enters with the default of its
  \<^verbatim>\<open>gauge_max_speed_kmh\<close> argument.
\<close>

type_synonym 'a effect = "filesystem \<Rightarrow> (error + 'a) \<times> filesystem \<times> string"

record dji_telemetry =
  parse_srt :: "path \<Rightarrow> telemetry effect"
  export :: "telemetry \<Rightarrow> path \<Rightarrow> pyval \<Rightarrow> unit effect"
  process_video ::
    "path \<Rightarrow> telemetry \<Rightarrow> path \<Rightarrow> overlay_config \<Rightarrow> callback option \<Rightarrow> unit effect"
  generate_overlay_video ::
    "telemetry \<Rightarrow> path \<Rightarrow> pyval \<Rightarrow> pyval \<Rightarrow> pyval \<Rightarrow> overlay_config \<Rightarrow>
     callback option \<Rightarrow> unit effect"
  generate_overlay_frames ::
    "telemetry \<Rightarrow> path \<Rightarrow> pyval \<Rightarrow> pyval \<Rightarrow> pyval \<Rightarrow> overlay_config \<Rightarrow> pyval \<Rightarrow>
     callback option \<Rightarrow> unit effect"
  add_audio :: "path \<Rightarrow> path \<Rightarrow> path \<Rightarrow> unit effect"
  get_video_info :: "path \<Rightarrow> (string \<Rightarrow> pyval option) effect"
  gauge_max_speed_kmh_default :: pyval

definition call :: "event \<Rightarrow> 'a effect \<Rightarrow> 'a prog" where
  "call ev eff =
     (\<lambda>s. case eff (files s) of
             (r, fs, out) \<Rightarrow>
               (r, s\<lparr>files := fs, stdout := stdout s @ [Ext out], trace := trace s @ [ev]\<rparr>))"

definition OverlayConfig ::
  "pyval \<Rightarrow> bool \<Rightarrow> bool \<Rightarrow> bool \<Rightarrow> bool \<Rightarrow> bool \<Rightarrow> bool \<Rightarrow> bool \<Rightarrow> pyval option \<Rightarrow>
   overlay_config prog" where
  \<comment> \<open>the constructor; the first argument is the default of the last, which may be
      left out\<close>
  "OverlayConfig dflt sa ss sv sc scs st sg gm =
     (\<lambda>s. let c = \<lparr>show_altitude = sa, show_speed = ss, show_vertical_speed = sv,
                    show_coordinates = sc, show_camera_settings = scs,
                    show_timestamp = st, show_speed_gauge = sg,
                    gauge_max_speed_kmh = (case gm of None \<Rightarrow> dflt | Some g \<Rightarrow> g)\<rparr>
           in (Inr c, s\<lparr>trace := trace s @ [New_OverlayConfig c]\<rparr>))"

type_synonym namespace = "string \<Rightarrow> pyval option"

definition getattr :: "namespace \<Rightarrow> string \<Rightarrow> pyval prog" where
  "getattr args a = (case args a of None \<Rightarrow> raise (AttributeError a) | Some v \<Rightarrow> ret v)"

definition getitem :: "(string \<Rightarrow> pyval option) \<Rightarrow> string \<Rightarrow> pyval prog" where
  "getitem d k = (case d k of None \<Rightarrow> raise (KeyError k) | Some v \<Rightarrow> ret v)"

definition format_f :: "nat \<Rightarrow> pyval \<Rightarrow> piece prog" where
  \<comment> \<open>the format \<^verbatim>\<open>.nf\<close> applied to a value of unknown type\<close>
  "format_f n v =
     (case v of
        VFloat x \<Rightarrow> ret (Fixed n x)
      | VInt i \<Rightarrow> bindp (lift (int_to_float i)) (\<lambda>x. ret (Fixed n x))
      | VBool b \<Rightarrow> ret (Fixed n (Fin (if b then 1 else 0)))
      | VStr s \<Rightarrow> raise ValueError
      | VNone \<Rightarrow> raise TypeError)"

section \<open>The front end\<close>

subsection \<open>The progress bar\<close>

definition progress_bar :: "int \<Rightarrow> int \<Rightarrow> int \<Rightarrow> unit prog" where
  "progress_bar current total' width =
     bindp (lift (int_truediv current total')) (\<lambda>percent.
     bindp (lift (int_mul_float width percent)) (\<lambda>x.
     bindp (lift (float_to_int x)) (\<lambda>filled.
     let bar = str_mul ''='' filled @ str_mul ''-'' (width - filled) in
     bindp (stdout_write
              [Lit (carriage_return @ ''[''), Str bar, Lit ''] '',
               Fixed 1 (float_mul percent (Fin 100)), Lit ''% ('', Dec current, Lit ''/'',
               Dec total', Lit '')'']) (\<lambda>_.
     if current = total' then print [] else ret ()))))"

definition run_callback :: "callback \<Rightarrow> int \<Rightarrow> int \<Rightarrow> unit prog" where
  \<comment> \<open>a pipeline calls its observer with two arguments; the width keeps its default\<close>
  "run_callback cb current total' = (case cb of Progress_bar \<Rightarrow> progress_bar current total' 50)"

subsection \<open>The subcommands\<close>

text \<open>
  Each subcommand receives the namespace built by the argument parser, a map from
  attribute names to values; reading an attribute that is not there raises
  \<^verbatim>\<open>AttributeError\<close>. The result is the exit status.
\<close>

definition progress_callback_of :: "pyval \<Rightarrow> callback option" where
  \<comment> \<open>\<^verbatim>\<open>progress_bar if not args.quiet else None\<close>\<close>
  "progress_callback_of quiet = (if \<not> truthy quiet then Some Progress_bar else None)"

definition cmd_overlay :: "dji_telemetry \<Rightarrow> namespace \<Rightarrow> int prog" where
  "cmd_overlay E args =
     bindp (getattr args ''video'') (\<lambda>video.
     bindp (lift (Path_of video)) (\<lambda>video_path.
     bindp (getattr args ''srt'') (\<lambda>srt.
     bindp (if truthy srt then lift (Path_of srt)
            else lift (with_suffix video_path ''.SRT'')) (\<lambda>srt_path.
     bindp (path_exists video_path) (\<lambda>video_found.
     if \<not> video_found then
       bindp (print [Lit ''Error: Video file not found: '', Pth video_path]) (\<lambda>_. ret 1)
     else
     bindp (path_exists srt_path) (\<lambda>srt_found.
     if \<not> srt_found then
       bindp (print [Lit ''Error: SRT file not found: '', Pth srt_path]) (\<lambda>_. ret 1)
     else
     bindp (getattr args ''output'') (\<lambda>output.
     bindp (if truthy output then lift (Path_of output)
            else lift (with_name video_path (stem video_path @ ''_telemetry.mp4'')))
       (\<lambda>output_path.
     bindp (print [Lit ''Parsing telemetry: '', Pth srt_path]) (\<lambda>_.
     bindp (call (Parse_srt srt_path) (parse_srt E srt_path)) (\<lambda>telemetry.
     bindp (print [Lit ''  Loaded '', Dec (int (length (frames telemetry))), Lit '' frames''])
       (\<lambda>_.
     bindp (print [Lit ''  Duration: '', Fixed 1 (duration_seconds telemetry), Lit ''s''])
       (\<lambda>_.
     bindp (print [Lit ''  Max altitude: '', Fixed 1 (max_altitude telemetry), Lit ''m''])
       (\<lambda>_.
     bindp (print [Lit ''  Max speed: '',
                   Fixed 1 (float_mul (max_speed telemetry) (float_lit (36 / 10))),
                   Lit '' km/h'']) (\<lambda>_.
     bindp (getattr args ''no_altitude'') (\<lambda>no_altitude.
     bindp (getattr args ''no_speed'') (\<lambda>no_speed.
     bindp (getattr args ''no_vspeed'') (\<lambda>no_vspeed.
     bindp (getattr args ''no_coords'') (\<lambda>no_coords.
     bindp (getattr args ''no_camera'') (\<lambda>no_camera.
     bindp (getattr args ''no_timestamp'') (\<lambda>no_timestamp.
     bindp (getattr args ''no_gauge'') (\<lambda>no_gauge.
     bindp (getattr args ''gauge_max'') (\<lambda>gauge_max.
     bindp (OverlayConfig (gauge_max_speed_kmh_default E)
              (\<not> truthy no_altitude) (\<not> truthy no_speed) (\<not> truthy no_vspeed)
              (\<not> truthy no_coords) (\<not> truthy no_camera) (\<not> truthy no_timestamp)
              (\<not> truthy no_gauge) (Some gauge_max)) (\<lambda>config.
     bindp (print [Lit (newline @ ''Processing video: ''), Pth video_path]) (\<lambda>_.
     bindp (lift (with_name output_path (stem output_path @ ''_temp.mp4'')))
       (\<lambda>temp_output.
     bindp (getattr args ''quiet'') (\<lambda>quiet.
     bindp (call (Process_video video_path telemetry temp_output config
                    (progress_callback_of quiet))
              (process_video E video_path telemetry temp_output config
                 (progress_callback_of quiet))) (\<lambda>_.
     bindp (getattr args ''audio'') (\<lambda>audio.
     bindp (if truthy audio then
              bindp (print [Lit ''Adding audio from: '', Pth video_path]) (\<lambda>_.
              bindp (call (Add_audio temp_output video_path output_path)
                       (add_audio E temp_output video_path output_path)) (\<lambda>_.
              unlink temp_output))
            else rename temp_output output_path) (\<lambda>_.
     bindp (print [Lit (newline @ ''Output saved to: ''), Pth output_path]) (\<lambda>_.
     ret 0))))))))))))))))))))))))))))))"

definition cmd_overlay_only :: "dji_telemetry \<Rightarrow> namespace \<Rightarrow> int prog" where
  "cmd_overlay_only E args =
     bindp (getattr args ''srt'') (\<lambda>srt.
     bindp (lift (Path_of srt)) (\<lambda>srt_path.
     bindp (path_exists srt_path) (\<lambda>srt_found.
     if \<not> srt_found then
       bindp (print [Lit ''Error: SRT file not found: '', Pth srt_path]) (\<lambda>_. ret 1)
     else
     bindp (getattr args ''output'') (\<lambda>output.
     bindp (if truthy output then lift (Path_of output)
            else lift (with_name srt_path (stem srt_path @ ''_overlay.mp4'')))
       (\<lambda>output_path.
     bindp (print [Lit ''Parsing telemetry: '', Pth srt_path]) (\<lambda>_.
     bindp (call (Parse_srt srt_path) (parse_srt E srt_path)) (\<lambda>telemetry.
     bindp (print [Lit ''  Loaded '', Dec (int (length (frames telemetry))), Lit '' frames''])
       (\<lambda>_.
     bindp (getattr args ''no_altitude'') (\<lambda>no_altitude.
     bindp (getattr args ''no_speed'') (\<lambda>no_speed.
     bindp (getattr args ''no_vspeed'') (\<lambda>no_vspeed.
     bindp (getattr args ''no_coords'') (\<lambda>no_coords.
     bindp (getattr args ''no_camera'') (\<lambda>no_camera.
     bindp (getattr args ''no_timestamp'') (\<lambda>no_timestamp.
     bindp (getattr args ''no_gauge'') (\<lambda>no_gauge.
     bindp (getattr args ''gauge_max'') (\<lambda>gauge_max.
     bindp (OverlayConfig (gauge_max_speed_kmh_default E)
              (\<not> truthy no_altitude) (\<not> truthy no_speed) (\<not> truthy no_vspeed)
              (\<not> truthy no_coords) (\<not> truthy no_camera) (\<not> truthy no_timestamp)
              (\<not> truthy no_gauge) (Some gauge_max)) (\<lambda>config.
     bindp (getattr args ''width'') (\<lambda>width.
     bindp (getattr args ''height'') (\<lambda>height.
     bindp (getattr args ''fps'') (\<lambda>fps.
     bindp (print [Lit (newline @ ''Generating overlay video: ''), Val width, Lit ''x'',
                   Val height, Lit '' @ '', Val fps, Lit ''fps'']) (\<lambda>_.
     bindp (getattr args ''quiet'') (\<lambda>quiet.
     bindp (call (Generate_overlay_video telemetry output_path width height fps config
                    (progress_callback_of quiet))
              (generate_overlay_video E telemetry output_path width height fps config
                 (progress_callback_of quiet))) (\<lambda>_.
     bindp (print [Lit (newline @ ''Output saved to: ''), Pth output_path]) (\<lambda>_.
     ret 0))))))))))))))))))))))))"

definition cmd_frames :: "dji_telemetry \<Rightarrow> namespace \<Rightarrow> int prog" where
  "cmd_frames E args =
     bindp (getattr args ''srt'') (\<lambda>srt.
     bindp (lift (Path_of srt)) (\<lambda>srt_path.
     bindp (path_exists srt_path) (\<lambda>srt_found.
     if \<not> srt_found then
       bindp (print [Lit ''Error: SRT file not found: '', Pth srt_path]) (\<lambda>_. ret 1)
     else
     bindp (getattr args ''output'') (\<lambda>output.
     bindp (if truthy output then lift (Path_of output)
            else lift (with_name srt_path (stem srt_path @ ''_frames'')))
       (\<lambda>output_dir.
     bindp (print [Lit ''Parsing telemetry: '', Pth srt_path]) (\<lambda>_.
     bindp (call (Parse_srt srt_path) (parse_srt E srt_path)) (\<lambda>telemetry.
     bindp (print [Lit ''  Loaded '', Dec (int (length (frames telemetry))), Lit '' frames''])
       (\<lambda>_.
     bindp (getattr args ''no_altitude'') (\<lambda>no_altitude.
     bindp (getattr args ''no_speed'') (\<lambda>no_speed.
     bindp (getattr args ''no_vspeed'') (\<lambda>no_vspeed.
     bindp (getattr args ''no_coords'') (\<lambda>no_coords.
     bindp (getattr args ''no_camera'') (\<lambda>no_camera.
     bindp (getattr args ''no_timestamp'') (\<lambda>no_timestamp.
     bindp (getattr args ''no_gauge'') (\<lambda>no_gauge.
     bindp (OverlayConfig (gauge_max_speed_kmh_default E)
              (\<not> truthy no_altitude) (\<not> truthy no_speed) (\<not> truthy no_vspeed)
              (\<not> truthy no_coords) (\<not> truthy no_camera) (\<not> truthy no_timestamp)
              (\<not> truthy no_gauge) None) (\<lambda>config.
     bindp (getattr args ''width'') (\<lambda>width.
     bindp (getattr args ''height'') (\<lambda>height.
     bindp (getattr args ''fps'') (\<lambda>fps.
     bindp (print [Lit (newline @ ''Generating frames: ''), Val width, Lit ''x'',
                   Val height, Lit '' @ '', Val fps, Lit ''fps'']) (\<lambda>_.
     bindp (getattr args ''format'') (\<lambda>format.
     bindp (getattr args ''quiet'') (\<lambda>quiet.
     bindp (call (Generate_overlay_frames telemetry output_dir width height fps config
                    format (progress_callback_of quiet))
              (generate_overlay_frames E telemetry output_dir width height fps config
                 format (progress_callback_of quiet))) (\<lambda>_.
     bindp (print [Lit (newline @ ''Frames saved to: ''), Pth output_dir]) (\<lambda>_.
     ret 0))))))))))))))))))))))))"

definition cmd_export :: "dji_telemetry \<Rightarrow> namespace \<Rightarrow> int prog" where
  "cmd_export E args =
     bindp (getattr args ''srt'') (\<lambda>srt.
     bindp (lift (Path_of srt)) (\<lambda>srt_path.
     bindp (path_exists srt_path) (\<lambda>srt_found.
     if \<not> srt_found then
       bindp (print [Lit ''Error: SRT file not found: '', Pth srt_path]) (\<lambda>_. ret 1)
     else
     bindp (getattr args ''output'') (\<lambda>output.
     bindp (lift (Path_of output)) (\<lambda>output_path.
     bindp (print [Lit ''Parsing telemetry: '', Pth srt_path]) (\<lambda>_.
     bindp (call (Parse_srt srt_path) (parse_srt E srt_path)) (\<lambda>telemetry.
     bindp (print [Lit ''  Loaded '', Dec (int (length (frames telemetry))), Lit '' frames''])
       (\<lambda>_.
     bindp (print [Lit ''  Duration: '', Fixed 1 (duration_seconds telemetry), Lit ''s''])
       (\<lambda>_.
     bindp (print [Lit ''  Distance: '', Fixed 1 (total_distance telemetry), Lit ''m''])
       (\<lambda>_.
     bindp (print [Lit (newline @ ''Exporting to: ''), Pth output_path]) (\<lambda>_.
     bindp (getattr args ''format'') (\<lambda>format.
     bindp (call (Export telemetry output_path format)
              (export E telemetry output_path format)) (\<lambda>_.
     bindp (print [Lit ''Done!'']) (\<lambda>_.
     ret 0))))))))))))))"

definition video_suffixes :: "string list" where
  "video_suffixes = [''.MP4'', ''.MOV'', ''.AVI'', ''.MKV'']"

definition cmd_info :: "dji_telemetry \<Rightarrow> namespace \<Rightarrow> int prog" where
  "cmd_info E args =
     bindp (getattr args ''path'') (\<lambda>v.
     bindp (lift (Path_of v)) (\<lambda>path.
     bindp (path_exists path) (\<lambda>found.
     if \<not> found then
       bindp (print [Lit ''Error: File not found: '', Pth path]) (\<lambda>_. ret 1)
     else if upper (suffix path) = ''.SRT'' then
       bindp (print [Lit ''SRT File: '', Pth path]) (\<lambda>_.
       bindp (print [Str (str_mul ''-'' 50)]) (\<lambda>_.
       bindp (call (Parse_srt path) (parse_srt E path)) (\<lambda>telemetry.
       bindp (print [Lit ''Frames:        '', Dec (int (length (frames telemetry)))]) (\<lambda>_.
       bindp (print [Lit ''Duration:      '', Fixed 1 (duration_seconds telemetry), Lit ''s''])
         (\<lambda>_.
       bindp (print [Lit ''Distance:      '', Fixed 1 (total_distance telemetry), Lit ''m''])
         (\<lambda>_.
       bindp (print [Lit ''Max altitude:  '', Fixed 1 (max_altitude telemetry), Lit ''m''])
         (\<lambda>_.
       bindp (print [Lit ''Max speed:     '',
                     Fixed 1 (float_mul (max_speed telemetry) (float_lit (36 / 10))),
                     Lit '' km/h'']) (\<lambda>_.
       bindp (case start_coordinates telemetry of
                None \<Rightarrow> raise TypeError
              | Some (lat, lon) \<Rightarrow>
                  print [Lit ''Start coords:  '', Fixed 6 lat, Lit '', '', Fixed 6 lon]) (\<lambda>_.
       bindp (case end_coordinates telemetry of
                None \<Rightarrow> raise TypeError
              | Some (lat, lon) \<Rightarrow>
                  print [Lit ''End coords:    '', Fixed 6 lat, Lit '', '', Fixed 6 lon]) (\<lambda>_.
       ret 0))))))))))
     else if upper (suffix path) \<in> set video_suffixes then
       bindp (print [Lit ''Video File: '', Pth path]) (\<lambda>_.
       bindp (print [Str (str_mul ''-'' 50)]) (\<lambda>_.
       bindp (call (Get_video_info path) (get_video_info E path)) (\<lambda>info.
       bindp (getitem info ''width'') (\<lambda>width.
       bindp (getitem info ''height'') (\<lambda>height.
       bindp (print [Lit ''Resolution:    '', Val width, Lit ''x'', Val height]) (\<lambda>_.
       bindp (getitem info ''fps'') (\<lambda>fps.
       bindp (format_f 2 fps) (\<lambda>fps_text.
       bindp (print [Lit ''FPS:           '', fps_text]) (\<lambda>_.
       bindp (getitem info ''frame_count'') (\<lambda>frame_count.
       bindp (print [Lit ''Frames:        '', Val frame_count]) (\<lambda>_.
       bindp (getitem info ''duration_seconds'') (\<lambda>duration.
       bindp (format_f 1 duration) (\<lambda>duration_text.
       bindp (print [Lit ''Duration:      '', duration_text, Lit ''s'']) (\<lambda>_.
       ret 0))))))))))))))
     else
       bindp (print [Lit ''Unknown file type: '', Str (suffix path)]) (\<lambda>_. ret 1))))"

subsection \<open>The argument parser and \<^verbatim>\<open>main\<close>\<close>

text \<open>
  \<^verbatim>\<open>main\<close> declares one parser per subcommand. A declaration is kept as data:
  the option strings (one name without dashes for a positional argument), the
  action, the type of the converted value, the default, the permitted choices and
  whether the argument is required. The attribute name follows from the option
  strings as in \<^verbatim>\<open>argparse\<close>: the first long option without its dashes and with
  \<open>-\<close> replaced by \<open>_\<close>.

  Splitting the command line into tokens and converting a token to a number are
  left to \<^verbatim>\<open>argparse\<close> and Python: the parser is given the arguments present on
  the command line, each as its attribute name and converted value, and accepts or
  rejects them by the declarations. The options \<^verbatim>\<open>--help\<close> and \<^verbatim>\<open>--version\<close>, which
  leave the program at once, are not modelled.
\<close>

datatype action = Store | Store_true

datatype argtype = TStr | TInt | TFloat

record argument =
  flags :: "string list"
  action :: action
  argtype :: argtype
  arg_default :: pyval
  choices :: "string list option"
  required :: bool

definition positional :: "string \<Rightarrow> argument" where
  "positional n =
     \<lparr>flags = [n], action = Store, argtype = TStr, arg_default = VNone, choices = None,
      required = True\<rparr>"

definition store :: "string list \<Rightarrow> argument" where
  \<comment> \<open>an option with a string value and no default\<close>
  "store fl =
     \<lparr>flags = fl, action = Store, argtype = TStr, arg_default = VNone, choices = None,
      required = False\<rparr>"

definition store_true :: "string list \<Rightarrow> argument" where
  "store_true fl =
     \<lparr>flags = fl, action = Store_true, argtype = TStr, arg_default = VBool False,
      choices = None, required = False\<rparr>"

definition dash_to_underscore :: "string \<Rightarrow> string" where
  "dash_to_underscore s = map (\<lambda>c. if c = CHR ''-'' then CHR ''_'' else c) s"

definition dest :: "argument \<Rightarrow> string" where
  "dest a =
     (case filter (\<lambda>f. take 2 f = ''--'') (flags a) of
        l # _ \<Rightarrow> dash_to_underscore (drop 2 l)
      | [] \<Rightarrow>
          (case flags a of
             [] \<Rightarrow> []
           | f # _ \<Rightarrow>
               if take 1 f = ''-'' then dash_to_underscore (drop 1 f) else f))"

definition overlay_options :: "argument list" where
  \<comment> \<open>the block "Overlay options", the same in three parsers\<close>
  "overlay_options =
     [store_true [''--no-altitude''], store_true [''--no-speed''],
      store_true [''--no-vspeed''], store_true [''--no-coords''],
      store_true [''--no-camera''], store_true [''--no-timestamp''],
      store_true [''--no-gauge'']]"

definition gauge_max_option :: argument where
  "gauge_max_option =
     (store [''--gauge-max''])\<lparr>argtype := TFloat, arg_default := VFloat (Fin 50)\<rparr>"

definition size_options :: "argument list" where
  "size_options =
     [(store [''--width'', ''-W''])\<lparr>argtype := TInt, arg_default := VInt 1920\<rparr>,
      (store [''--height'', ''-H''])\<lparr>argtype := TInt, arg_default := VInt 1080\<rparr>,
      (store [''--fps''])\<lparr>argtype := TFloat, arg_default := VFloat (Fin 30)\<rparr>]"

definition p_overlay :: "argument list" where
  "p_overlay =
     [positional ''video'', store [''--srt'', ''-s''], store [''--output'', ''-o''],
      store_true [''--audio'', ''-a''], store_true [''--quiet'', ''-q'']]
     @ overlay_options @ [gauge_max_option]"

definition p_overlay_only :: "argument list" where
  "p_overlay_only =
     [positional ''srt'', store [''--output'', ''-o'']] @ size_options
     @ [store_true [''--quiet'', ''-q'']] @ overlay_options @ [gauge_max_option]"

definition p_frames :: "argument list" where
  "p_frames =
     [positional ''srt'', store [''--output'', ''-o'']] @ size_options
     @ [(store [''--format'', ''-f''])
          \<lparr>arg_default := VStr ''png'', choices := Some [''png'', ''jpg'']\<rparr>,
        store_true [''--quiet'', ''-q'']]
     @ overlay_options"

definition p_export :: "argument list" where
  "p_export =
     [positional ''srt'', (store [''--output'', ''-o''])\<lparr>required := True\<rparr>,
      (store [''--format'', ''-f''])\<lparr>choices := Some [''csv'', ''json'', ''gpx'']\<rparr>]"

definition p_info :: "argument list" where
  "p_info = [positional ''path'']"

definition converted :: "argument \<Rightarrow> pyval \<Rightarrow> bool" where
  \<comment> \<open>the value has the declared type and is one of the choices\<close>
  "converted a v =
     (case action a of
        Store_true \<Rightarrow> v = VBool True
      | Store \<Rightarrow>
          (case (argtype a, v) of
             (TStr, VStr s) \<Rightarrow> (case choices a of None \<Rightarrow> True | Some cs \<Rightarrow> s \<in> set cs)
           | (TInt, VInt i) \<Rightarrow> True
           | (TFloat, VFloat x) \<Rightarrow> True
           | _ \<Rightarrow> False))"

definition accepted :: "argument list \<Rightarrow> (string \<times> pyval) list \<Rightarrow> bool" where
  "accepted decls given \<longleftrightarrow>
     list_all (\<lambda>(d, v). list_ex (\<lambda>a. dest a = d \<and> converted a v) decls) given \<and>
     list_all (\<lambda>a. required a \<longrightarrow> dest a \<in> set (map fst given)) decls"

definition namespace_of :: "argument list \<Rightarrow> (string \<times> pyval) list \<Rightarrow> namespace" where
  \<comment> \<open>every declared attribute holds its default or the last value given\<close>
  "namespace_of decls given d =
     (case find (\<lambda>a. dest a = d) decls of
        None \<Rightarrow> None
      | Some a \<Rightarrow>
          Some (case map_of (rev given) d of None \<Rightarrow> arg_default a | Some v \<Rightarrow> v))"

definition parse_args :: "argument list \<Rightarrow> (string \<times> pyval) list \<Rightarrow> error + namespace" where
  "parse_args decls given =
     (if accepted decls given then Inr (namespace_of decls given) else Inl (SystemExit 2))"

definition subparsers ::
  "(string \<times> argument list \<times> (dji_telemetry \<Rightarrow> namespace \<Rightarrow> int prog)) list" where
  "subparsers =
     [(''overlay'', p_overlay, cmd_overlay),
      (''overlay-only'', p_overlay_only, cmd_overlay_only),
      (''frames'', p_frames, cmd_frames),
      (''export'', p_export, cmd_export),
      (''info'', p_info, cmd_info)]"

definition main :: "dji_telemetry \<Rightarrow> string option \<Rightarrow> (string \<times> pyval) list \<Rightarrow> int prog" where
  \<comment> \<open>the subcommand named on the command line, if any, and its arguments\<close>
  "main E command given =
     (case command of
        None \<Rightarrow> bindp (stdout_write [Help]) (\<lambda>_. ret 1)
      | Some c \<Rightarrow>
          (case map_of subparsers c of
             None \<Rightarrow> raise (SystemExit 2)
           | Some (decls, func) \<Rightarrow>
               bindp (lift (parse_args decls given)) (\<lambda>args. func E args)))"

subsection \<open>Observing a run\<close>

definition events_of :: "'a prog \<Rightarrow> state \<Rightarrow> event list" where
  \<comment> \<open>the calls a run adds to the trace\<close>
  "events_of m s = drop (length (trace s)) (trace (snd (m s)))"

definition output_of :: "'a prog \<Rightarrow> state \<Rightarrow> piece list" where
  \<comment> \<open>what a run prints\<close>
  "output_of m s = drop (length (stdout s)) (stdout (snd (m s)))"

fun built :: "event \<Rightarrow> overlay_config option" where
  \<comment> \<open>the configuration an event constructs\<close>
  "built (New_OverlayConfig c) = Some c"
| "built _ = None"

fun config_of :: "event \<Rightarrow> overlay_config option" where
  \<comment> \<open>the configuration a call of a pipeline entry point receives\<close>
  "config_of (Process_video v t out c cb) = Some c"
| "config_of (Generate_overlay_video t out w h f c cb) = Some c"
| "config_of (Generate_overlay_frames t out w h f c fmt cb) = Some c"
| "config_of _ = None"

definition is_pipeline :: "event \<Rightarrow> bool" where
  "is_pipeline ev \<longleftrightarrow> config_of ev \<noteq> None"

fun with_callback :: "callback option \<Rightarrow> event \<Rightarrow> event" where
  \<comment> \<open>the same call with another progress observer\<close>
  "with_callback cb (Process_video v t out c _) = Process_video v t out c cb"
| "with_callback cb (Generate_overlay_video t out w h f c _) =
     Generate_overlay_video t out w h f c cb"
| "with_callback cb (Generate_overlay_frames t out w h f c fmt _) =
     Generate_overlay_frames t out w h f c fmt cb"
| "with_callback cb ev = ev"

definition flag :: "(string \<times> pyval) list \<Rightarrow> string \<Rightarrow> bool" where
  \<comment> \<open>the switch is present on the command line\<close>
  "flag given d \<longleftrightarrow> d \<in> fst ` set given"

definition configured :: "namespace \<Rightarrow> pyval option \<Rightarrow> event list \<Rightarrow> bool" where
  \<comment> \<open>at most one configuration is built, before the pipeline is entered and passed
      to it, with every toggle the negation of its switch and the given gauge scale\<close>
  "configured args gm evs \<longleftrightarrow>
     length (List.map_filter built evs) \<le> 1 \<and>
     (\<forall>ev \<in> set evs. \<forall>c. config_of ev = Some c \<longrightarrow>
        List.map_filter built (takeWhile (\<lambda>ev. config_of ev = None) evs) = [c]) \<and>
     (\<forall>c \<in> set (List.map_filter built evs).
        (\<forall>v. args ''no_altitude'' = Some v \<longrightarrow> show_altitude c = (\<not> truthy v)) \<and>
        (\<forall>v. args ''no_speed'' = Some v \<longrightarrow> show_speed c = (\<not> truthy v)) \<and>
        (\<forall>v. args ''no_vspeed'' = Some v \<longrightarrow> show_vertical_speed c = (\<not> truthy v)) \<and>
        (\<forall>v. args ''no_coords'' = Some v \<longrightarrow> show_coordinates c = (\<not> truthy v)) \<and>
        (\<forall>v. args ''no_camera'' = Some v \<longrightarrow> show_camera_settings c = (\<not> truthy v)) \<and>
        (\<forall>v. args ''no_timestamp'' = Some v \<longrightarrow> show_timestamp c = (\<not> truthy v)) \<and>
        (\<forall>v. args ''no_gauge'' = Some v \<longrightarrow> show_speed_gauge c = (\<not> truthy v)) \<and>
        Some (gauge_max_speed_kmh c) = gm)"

fun kmh_values :: "piece list \<Rightarrow> pyfloat list" where
  \<comment> \<open>the numbers printed with the unit km/h\<close>
  "kmh_values (Fixed n x # Lit u # ps) =
     (if u = '' km/h'' then x # kmh_values ps else kmh_values ps)"
| "kmh_values (p # ps) = kmh_values ps"
| "kmh_values [] = []"

definition observer_transparent :: "dji_telemetry \<Rightarrow> bool" where
  \<comment> \<open>what the specification asks of the pipeline: the result and the files written
      do not depend on whether a progress observer is supplied\<close>
  "observer_transparent E \<longleftrightarrow>
     (\<forall>v t out c fs.
        fst (process_video E v t out c (Some Progress_bar) fs) =
          fst (process_video E v t out c None fs) \<and>
        fst (snd (process_video E v t out c (Some Progress_bar) fs)) =
          fst (snd (process_video E v t out c None fs))) \<and>
     (\<forall>t out w h f c fs.
        fst (generate_overlay_video E t out w h f c (Some Progress_bar) fs) =
          fst (generate_overlay_video E t out w h f c None fs) \<and>
        fst (snd (generate_overlay_video E t out w h f c (Some Progress_bar) fs)) =
          fst (snd (generate_overlay_video E t out w h f c None fs))) \<and>
     (\<forall>t out w h f c fmt fs.
        fst (generate_overlay_frames E t out w h f c fmt (Some Progress_bar) fs) =
          fst (generate_overlay_frames E t out w h f c fmt None fs) \<and>
        fst (snd (generate_overlay_frames E t out w h f c fmt (Some Progress_bar) fs)) =
          fst (snd (generate_overlay_frames E t out w h f c fmt None fs)))"

definition writes_only_output :: "dji_telemetry \<Rightarrow> bool" where
  \<comment> \<open>\<^verbatim>\<open>process_video\<close> changes no file but the output file it is given\<close>
  "writes_only_output E \<longleftrightarrow>
     (\<forall>v t out c cb fs p.
        p \<noteq> out \<longrightarrow> fst (snd (process_video E v t out c cb fs)) p = fs p)"

definition after :: "'a prog \<Rightarrow> state \<Rightarrow> ((error + 'a) \<Rightarrow> state \<Rightarrow> bool) \<Rightarrow> bool" where
  \<comment> \<open>the outcome of running \<open>m\<close> from \<open>s\<close> satisfies \<open>Q\<close>\<close>
  "after m s Q \<longleftrightarrow> Q (fst (m s)) (snd (m s))"

definition both ::
  "'a prog \<Rightarrow> 'a prog \<Rightarrow> state \<Rightarrow>
   ((error + 'a) \<times> state \<Rightarrow> (error + 'a) \<times> state \<Rightarrow> bool) \<Rightarrow> bool" where
  \<comment> \<open>the outcomes of running two programs from the same state are related by \<open>R\<close>\<close>
  "both m1 m2 s R \<longleftrightarrow> R (m1 s) (m2 s)"

section \<open>The exporter\<close>

text \<open>
  Modelled from the spec: \<^verbatim>\<open>export(track, path, format)\<close> is missing from the sources
  at hand. By the specification the format is the explicit argument when there is
  one and is inferred from the file extension otherwise (here: the extension
  without regard to letter case); an unrecognized format, explicit or inferred,
  fails before anything is written. The three serializers are a parameter.
\<close>

definition export_formats :: "string list" where
  "export_formats = [''csv'', ''json'', ''gpx'']"

definition infer_format :: "path \<Rightarrow> string" where
  "infer_format p = (if upper (suffix p) = ''.CSV'' then ''csv''
                     else if upper (suffix p) = ''.JSON'' then ''json''
                     else if upper (suffix p) = ''.GPX'' then ''gpx''
                     else suffix p)"

definition resolve_format :: "pyval \<Rightarrow> path \<Rightarrow> error + string" where
  "resolve_format format p =
     (case format of
        VNone \<Rightarrow>
          if infer_format p \<in> set export_formats then Inr (infer_format p)
          else Inl ExportFormatError
      | VStr f \<Rightarrow> if f \<in> set export_formats then Inr f else Inl ExportFormatError
      | _ \<Rightarrow> Inl ExportFormatError)"

definition export_spec ::
  "(string \<Rightarrow> telemetry \<Rightarrow> string) \<Rightarrow> telemetry \<Rightarrow> path \<Rightarrow> pyval \<Rightarrow> unit effect" where
  "export_spec serialize t p format =
     (\<lambda>fs. case resolve_format format p of
              Inl e \<Rightarrow> (Inl e, fs, [])
            | Inr f \<Rightarrow> (Inr (), fs(p \<mapsto> serialize f t), []))"

section \<open>A sample environment\<close>

text \<open>
  A small package and file system on which the subcommands can be run: the parser
  returns a fixed track, every pipeline entry point writes its output file and
  ignores the observer, the exporter is the one modelled above.
\<close>

definition example_track :: telemetry where
  "example_track =
     \<lparr>frames = three_cue_track, duration_seconds = Fin 3, max_altitude = Fin 30,
      max_speed = Fin 10, total_distance = Fin 0,
      start_coordinates = Some (Fin 1, Fin 2), end_coordinates = Some (Fin 1, Fin 2)\<rparr>"

definition example_info :: "string \<Rightarrow> pyval option" where
  "example_info =
     [''width'' \<mapsto> VInt 1920, ''height'' \<mapsto> VInt 1080, ''fps'' \<mapsto> VFloat (Fin 30),
      ''frame_count'' \<mapsto> VInt 50, ''duration_seconds'' \<mapsto> VFloat (Fin 2)]"

definition example_package :: dji_telemetry where
  "example_package =
     \<lparr>parse_srt = (\<lambda>p fs. (Inr example_track, fs, [])),
      export = export_spec (\<lambda>f t. f),
      process_video = (\<lambda>v t out c cb fs. (Inr (), fs(out \<mapsto> ''video''), [])),
      generate_overlay_video = (\<lambda>t out w h f c cb fs. (Inr (), fs(out \<mapsto> ''overlay''), [])),
      generate_overlay_frames =
        (\<lambda>t out w h f c fmt cb fs. (Inr (), fs(out \<mapsto> ''frames''), [])),
      add_audio = (\<lambda>video audio out fs. (Inr (), fs(out \<mapsto> ''video with audio''), [])),
      get_video_info = (\<lambda>p fs. (Inr example_info, fs, [])),
      gauge_max_speed_kmh_default = VFloat (Fin 100)\<rparr>"

definition failing_package :: dji_telemetry where
  \<comment> \<open>the same package with a pipeline that fails after writing part of its output\<close>
  "failing_package =
     example_package
       \<lparr>process_video :=
          (\<lambda>v t out c cb fs. (Inl PipelineIOError, fs(out \<mapsto> ''partial video''), []))\<rparr>"

definition example_state :: state where
  "example_state =
     \<lparr>files = [Path ''v.MP4'' \<mapsto> ''footage'', Path ''v.SRT'' \<mapsto> ''subtitles''],
      stdout = [], trace = []\<rparr>"

section \<open>Reasoning about runs\<close>

text \<open>
  A run is followed step by step: each rule below reduces a statement about the
  outcome of a program to statements about the outcomes of its parts, one case
  for every exception a step can raise.
\<close>

lemma after_ret: "Q (Inr x) s \<Longrightarrow> after (ret x) s Q"
  by (simp add: after_def ret_def)

lemma after_raise: "Q (Inl e) s \<Longrightarrow> after (raise e) s Q"
  by (simp add: after_def raise_def)

lemma after_bindp:
  "after m s (\<lambda>r s'. case r of Inl e \<Rightarrow> Q (Inl e) s' | Inr x \<Rightarrow> after (f x) s' Q) \<Longrightarrow>
   after (bindp m f) s Q"
  by (cases "m s") (auto simp: after_def bindp_def split: sum.splits)

lemma after_if:
  "(c \<Longrightarrow> after a s Q) \<Longrightarrow> (\<not> c \<Longrightarrow> after b s Q) \<Longrightarrow> after (if c then a else b) s Q"
  by simp

lemma after_lift:
  "(\<And>e. r = Inl e \<Longrightarrow> Q (Inl e) s) \<Longrightarrow> (\<And>x. r = Inr x \<Longrightarrow> Q (Inr x) s) \<Longrightarrow>
   after (lift r) s Q"
  by (cases r) (simp_all add: after_def lift_def)

lemma after_stdout_write:
  "Q (Inr ()) (s\<lparr>stdout := stdout s @ ps\<rparr>) \<Longrightarrow> after (stdout_write ps) s Q"
  by (simp add: after_def stdout_write_def)

lemma after_print:
  "Q (Inr ()) (s\<lparr>stdout := stdout s @ ps @ [Lit newline]\<rparr>) \<Longrightarrow> after (print ps) s Q"
  by (simp add: after_def print_def stdout_write_def)

lemma after_path_exists:
  "Q (Inr (files s p \<noteq> None)) s \<Longrightarrow> after (path_exists p) s Q"
  by (simp add: after_def path_exists_def)

lemma after_getattr:
  "(args a = None \<Longrightarrow> Q (Inl (AttributeError a)) s) \<Longrightarrow>
   (\<And>v. args a = Some v \<Longrightarrow> Q (Inr v) s) \<Longrightarrow>
   after (getattr args a) s Q"
  by (cases "args a") (simp_all add: after_def getattr_def ret_def raise_def)

lemma after_getitem:
  "(d k = None \<Longrightarrow> Q (Inl (KeyError k)) s) \<Longrightarrow>
   (\<And>v. d k = Some v \<Longrightarrow> Q (Inr v) s) \<Longrightarrow>
   after (getitem d k) s Q"
  by (cases "d k") (simp_all add: after_def getitem_def ret_def raise_def)

lemma after_call:
  "(\<And>e fs out. eff (files s) = (Inl e, fs, out) \<Longrightarrow>
      Q (Inl e) (s\<lparr>files := fs, stdout := stdout s @ [Ext out], trace := trace s @ [ev]\<rparr>)) \<Longrightarrow>
   (\<And>x fs out. eff (files s) = (Inr x, fs, out) \<Longrightarrow>
      Q (Inr x) (s\<lparr>files := fs, stdout := stdout s @ [Ext out], trace := trace s @ [ev]\<rparr>)) \<Longrightarrow>
   after (call ev eff) s Q"
  by (cases "eff (files s)"; cases "fst (eff (files s))") (simp_all add: after_def call_def)

lemma after_OverlayConfig:
  "(\<And>c. c = \<lparr>show_altitude = a, show_speed = b, show_vertical_speed = c',
             show_coordinates = e, show_camera_settings = f, show_timestamp = g,
             show_speed_gauge = h,
             gauge_max_speed_kmh = (case gm of None \<Rightarrow> d | Some x \<Rightarrow> x)\<rparr> \<Longrightarrow>
      Q (Inr c) (s\<lparr>trace := trace s @ [New_OverlayConfig c]\<rparr>)) \<Longrightarrow>
   after (OverlayConfig d a b c' e f g h gm) s Q"
  by (simp add: after_def OverlayConfig_def Let_def)

lemma after_rename:
  "(files s src = None \<Longrightarrow> Q (Inl FileNotFoundError) s) \<Longrightarrow>
   (\<And>c. files s src = Some c \<Longrightarrow>
      Q (Inr ()) (s\<lparr>files := ((files s)(src := None))(dst \<mapsto> c)\<rparr>)) \<Longrightarrow>
   after (rename src dst) s Q"
  by (cases "files s src") (simp_all add: after_def rename_def)

lemma after_unlink:
  "(files s p = None \<Longrightarrow> Q (Inl FileNotFoundError) s) \<Longrightarrow>
   (\<And>c. files s p = Some c \<Longrightarrow> Q (Inr ()) (s\<lparr>files := (files s)(p := None)\<rparr>)) \<Longrightarrow>
   after (unlink p) s Q"
  by (cases "files s p") (simp_all add: after_def unlink_def)

lemma after_format_f:
  "(\<And>e. v = VStr e \<Longrightarrow> Q (Inl ValueError) s) \<Longrightarrow>
   (v = VNone \<Longrightarrow> Q (Inl TypeError) s) \<Longrightarrow>
   (\<And>i e. v = VInt i \<Longrightarrow> int_to_float i = Inl e \<Longrightarrow> Q (Inl e) s) \<Longrightarrow>
   (\<And>i x. v = VInt i \<Longrightarrow> int_to_float i = Inr x \<Longrightarrow> Q (Inr (Fixed n x)) s) \<Longrightarrow>
   (\<And>x. v = VFloat x \<Longrightarrow> Q (Inr (Fixed n x)) s) \<Longrightarrow>
   (\<And>b. v = VBool b \<Longrightarrow> Q (Inr (Fixed n (Fin (if b then 1 else 0)))) s) \<Longrightarrow>
   after (format_f n v) s Q"
  by (cases v; cases "int_to_float (case v of VInt i \<Rightarrow> i | _ \<Rightarrow> 0)")
     (simp_all add: after_def format_f_def ret_def raise_def bindp_def lift_def)

lemma after_case_option:
  "(x = None \<Longrightarrow> after a s Q) \<Longrightarrow> (\<And>y. x = Some y \<Longrightarrow> after (b y) s Q) \<Longrightarrow>
   after (case x of None \<Rightarrow> a | Some y \<Rightarrow> b y) s Q"
  by (cases x) simp_all

lemma after_case_prod:
  "(\<And>a b. x = (a, b) \<Longrightarrow> after (f a b) s Q) \<Longrightarrow>
   after (case x of (a, b) \<Rightarrow> f a b) s Q"
  by (cases x) simp

lemmas after_rules =
  after_bindp after_ret after_raise after_if after_lift after_stdout_write after_print
  after_path_exists after_getattr after_getitem after_call after_OverlayConfig
  after_rename after_unlink after_format_f after_case_option after_case_prod

section \<open>The overlay configuration\<close>


lemma cmd_frames_configured:
  "after (cmd_frames E args) s (\<lambda>r s'.
     configured args (Some (gauge_max_speed_kmh_default E))
       (drop (length (trace s)) (trace s')))"
  unfolding cmd_frames_def configured_def
  by (rule after_rules conjI impI allI | simp add: List.map_filter_simps)+

lemma cmd_overlay_only_configured:
  "after (cmd_overlay_only E args) s (\<lambda>r s'.
     configured args (args ''gauge_max'') (drop (length (trace s)) (trace s')))"
  unfolding cmd_overlay_only_def configured_def
  by (rule after_rules conjI impI allI | simp add: List.map_filter_simps)+

lemma cmd_overlay_configured:
  "after (cmd_overlay E args) s (\<lambda>r s'.
     configured args (args ''gauge_max'') (drop (length (trace s)) (trace s')))"
  unfolding cmd_overlay_def configured_def
  by (rule after_rules conjI impI allI | simp add: List.map_filter_simps)+

lemma main_subcommand:
  "map_of subparsers c = Some (decls, func) \<Longrightarrow>
   main E (Some c) given s =
     (if accepted decls given then func E (namespace_of decls given) s
      else (Inl (SystemExit 2), s))"
  by (simp add: main_def parse_args_def bindp_def lift_def)

lemma namespace_store_true:
  assumes acc: "accepted decls given"
    and found: "map_option arg_default (find (\<lambda>a. dest a = d) decls) = Some (VBool False)"
    and all: "list_all (\<lambda>b. dest b = d \<longrightarrow> action b = Store_true) decls"
  shows "namespace_of decls given d = Some (VBool (flag given d))"
proof (cases "map_of (rev given) d")
  case None
  then have "\<not> flag given d"
    by (simp add: flag_def map_of_eq_None_iff)
  with None found show ?thesis
    by (auto simp: namespace_of_def)
next
  case (Some v)
  then have mem: "(d, v) \<in> set given"
    by (auto dest: map_of_SomeD)
  then have "flag given d"
    by (force simp: flag_def)
  moreover from acc mem obtain b where "b \<in> set decls" "dest b = d" "converted b v"
    by (auto simp: accepted_def list_all_iff list_ex_iff)
  with all have "v = VBool True"
    by (auto simp: list_all_iff converted_def)
  ultimately show ?thesis
    using Some found by (auto simp: namespace_of_def)
qed

lemmas decl_simps =
  p_overlay_def p_overlay_only_def p_frames_def p_export_def p_info_def overlay_options_def
  gauge_max_option_def size_options_def positional_def store_def store_true_def dest_def
  dash_to_underscore_def

lemma p_frames_flags:
  assumes "accepted p_frames given"
    and "d \<in> {''no_altitude'', ''no_speed'', ''no_vspeed'', ''no_coords'', ''no_camera'',
               ''no_timestamp'', ''no_gauge'', ''quiet''}"
  shows "namespace_of p_frames given d = Some (VBool (flag given d))"
  using assms(2)
  by (elim insertE emptyE; intro namespace_store_true [OF assms(1)]; simp add: decl_simps)


lemma p_overlay_flags:
  assumes "accepted p_overlay given"
    and "d \<in> {''no_altitude'', ''no_speed'', ''no_vspeed'', ''no_coords'', ''no_camera'',
               ''no_timestamp'', ''no_gauge'', ''quiet'', ''audio''}"
  shows "namespace_of p_overlay given d = Some (VBool (flag given d))"
  using assms(2)
  by (elim insertE emptyE; intro namespace_store_true [OF assms(1)]; simp add: decl_simps)

lemma p_overlay_only_flags:
  assumes "accepted p_overlay_only given"
    and "d \<in> {''no_altitude'', ''no_speed'', ''no_vspeed'', ''no_coords'', ''no_camera'',
               ''no_timestamp'', ''no_gauge'', ''quiet''}"
  shows "namespace_of p_overlay_only given d = Some (VBool (flag given d))"
  using assms(2)
  by (elim insertE emptyE; intro namespace_store_true [OF assms(1)]; simp add: decl_simps)

lemma gauge_max_attribute:
  "namespace_of p_overlay given ''gauge_max'' =
     Some (case map_of (rev given) ''gauge_max'' of None \<Rightarrow> VFloat (Fin 50) | Some v \<Rightarrow> v)"
  "namespace_of p_overlay_only given ''gauge_max'' =
     Some (case map_of (rev given) ''gauge_max'' of None \<Rightarrow> VFloat (Fin 50) | Some v \<Rightarrow> v)"
  "namespace_of p_frames given ''gauge_max'' = None"
  by (simp_all add: namespace_of_def decl_simps split: option.splits)

lemma events_of_rejected [simp]: "events_of (\<lambda>s. (r, s)) s = []"
  by (simp add: events_of_def)

lemma configured_empty [simp]: "configured args gm []"
  by (simp add: configured_def List.map_filter_simps)

lemma main_overlay_configured:
  "configured (namespace_of p_overlay given) (namespace_of p_overlay given ''gauge_max'')
     (events_of (main E (Some ''overlay'') given) s)"
proof (cases "accepted p_overlay given")
  case True
  then have "main E (Some ''overlay'') given s = cmd_overlay E (namespace_of p_overlay given) s"
    by (simp add: main_subcommand [where decls = p_overlay and func = cmd_overlay]
        subparsers_def)
  then show ?thesis
    using cmd_overlay_configured [of E "namespace_of p_overlay given" s]
    by (simp add: after_def events_of_def)
next
  case False
  then have "main E (Some ''overlay'') given s = (Inl (SystemExit 2), s)"
    by (simp add: main_subcommand [where decls = p_overlay and func = cmd_overlay]
        subparsers_def)
  then show ?thesis
    by (simp add: events_of_def)
qed


lemma main_overlay_only_configured:
  "configured (namespace_of p_overlay_only given)
     (namespace_of p_overlay_only given ''gauge_max'')
     (events_of (main E (Some ''overlay-only'') given) s)"
proof (cases "accepted p_overlay_only given")
  case True
  then have "main E (Some ''overlay-only'') given s =
      cmd_overlay_only E (namespace_of p_overlay_only given) s"
    by (simp add: main_subcommand [where decls = p_overlay_only and func = cmd_overlay_only]
        subparsers_def)
  then show ?thesis
    using cmd_overlay_only_configured [of E "namespace_of p_overlay_only given" s]
    by (simp add: after_def events_of_def)
next
  case False
  then have "main E (Some ''overlay-only'') given s = (Inl (SystemExit 2), s)"
    by (simp add: main_subcommand [where decls = p_overlay_only and func = cmd_overlay_only]
        subparsers_def)
  then show ?thesis
    by (simp add: events_of_def)
qed

lemma main_frames_configured:
  "configured (namespace_of p_frames given) (Some (gauge_max_speed_kmh_default E))
     (events_of (main E (Some ''frames'') given) s)"
proof (cases "accepted p_frames given")
  case True
  then have "main E (Some ''frames'') given s = cmd_frames E (namespace_of p_frames given) s"
    by (simp add: main_subcommand [where decls = p_frames and func = cmd_frames]
        subparsers_def)
  then show ?thesis
    using cmd_frames_configured [of E "namespace_of p_frames given" s]
    by (simp add: after_def events_of_def)
next
  case False
  then have "main E (Some ''frames'') given s = (Inl (SystemExit 2), s)"
    by (simp add: main_subcommand [where decls = p_frames and func = cmd_frames]
        subparsers_def)
  then show ?thesis
    by (simp add: events_of_def)
qed

lemma events_rejected:
  "map_of subparsers c = Some (decls, func) \<Longrightarrow> \<not> accepted decls given \<Longrightarrow>
   events_of (main E (Some c) given) s = []"
  by (simp add: main_subcommand events_of_def)

text \<open>
  Claim C4. For the subcommands \<^verbatim>\<open>overlay\<close>, \<^verbatim>\<open>overlay-only\<close> and \<^verbatim>\<open>frames\<close> and every
  command line: a run builds at most one overlay configuration; when a pipeline entry
  point is called, the one configuration built before the call is the one it
  receives; and in that configuration every toggle \<open>show_X\<close> is the negation of
  the presence of its own switch \<^verbatim>\<open>--no-X\<close>, while the gauge scale is the value of
  \<^verbatim>\<open>--gauge-max\<close> (default 50.0) or, for \<^verbatim>\<open>frames\<close>, the default of the class.
\<close>

theorem overlay_config_from_flags:
  "\<forall>cmd \<in> {''overlay'', ''overlay-only'', ''frames''}.
     let evs = events_of (main E (Some cmd) given) s in
       length (List.map_filter built evs) \<le> 1 \<and>
       (\<forall>ev \<in> set evs. \<forall>c. config_of ev = Some c \<longrightarrow>
          List.map_filter built (takeWhile (\<lambda>ev. config_of ev = None) evs) = [c]) \<and>
       (\<forall>c \<in> set (List.map_filter built evs).
          show_altitude c = (\<not> flag given ''no_altitude'') \<and>
          show_speed c = (\<not> flag given ''no_speed'') \<and>
          show_vertical_speed c = (\<not> flag given ''no_vspeed'') \<and>
          show_coordinates c = (\<not> flag given ''no_coords'') \<and>
          show_camera_settings c = (\<not> flag given ''no_camera'') \<and>
          show_timestamp c = (\<not> flag given ''no_timestamp'') \<and>
          show_speed_gauge c = (\<not> flag given ''no_gauge'') \<and>
          gauge_max_speed_kmh c =
            (if cmd = ''frames'' then gauge_max_speed_kmh_default E
             else case map_of (rev given) ''gauge_max'' of
                    None \<Rightarrow> VFloat (Fin 50) | Some v \<Rightarrow> v))"
proof (rule ballI, goal_cases)
  case (1 cmd)
  then consider "cmd = ''overlay''" | "cmd = ''overlay-only''" | "cmd = ''frames''"
    by auto
  then show ?case
  proof cases
    case 1
    show ?thesis
    proof (cases "accepted p_overlay given")
      case True
      show ?thesis
        using main_overlay_configured [of given E s] p_overlay_flags [OF True]
        by (simp add: 1 configured_def gauge_max_attribute Let_def)
    next
      case False
      then show ?thesis
        by (simp add: 1 events_rejected [where decls = p_overlay and func = cmd_overlay]
            subparsers_def List.map_filter_simps)
    qed
  next
    case 2
    show ?thesis
    proof (cases "accepted p_overlay_only given")
      case True
      show ?thesis
        using main_overlay_only_configured [of given E s] p_overlay_only_flags [OF True]
        by (simp add: 2 configured_def gauge_max_attribute Let_def)
    next
      case False
      then show ?thesis
        by (simp add: 2
            events_rejected [where decls = p_overlay_only and func = cmd_overlay_only]
            subparsers_def List.map_filter_simps)
    qed
  next
    case 3
    show ?thesis
    proof (cases "accepted p_frames given")
      case True
      show ?thesis
        using main_frames_configured [of given E s] p_frames_flags [OF True]
        by (simp add: 3 configured_def Let_def)
    next
      case False
      then show ?thesis
        by (simp add: 3 events_rejected [where decls = p_frames and func = cmd_frames]
            subparsers_def List.map_filter_simps)
    qed
  qed
qed


subsection \<open>Evaluating the sample runs\<close>


lemmas run_simps =
  bindp_def ret_def raise_def lift_def stdout_write_def print_def path_exists_def rename_def
  unlink_def call_def OverlayConfig_def getattr_def getitem_def format_f_def
  progress_callback_of_def Path_of_def

lemmas path_simps =
  Path_def splitroot_def name_def suffix_def stem_def rfind_def with_name_def with_suffix_def
  upper_def to_upper_def

lemmas example_simps =
  example_package_def example_state_def example_track_def example_info_def

lemmas main_simps =
  main_def subparsers_def parse_args_def accepted_def namespace_of_def converted_def

lemma example_overlay_events:
  "events_of (main example_package (Some ''overlay'')
       [(''video'', VStr ''v.MP4''), (''no_speed'', VBool True)]) example_state =
     [Parse_srt (Path ''v.SRT''),
      New_OverlayConfig
        \<lparr>show_altitude = True, show_speed = False, show_vertical_speed = True,
         show_coordinates = True, show_camera_settings = True, show_timestamp = True,
         show_speed_gauge = True, gauge_max_speed_kmh = VFloat (Fin 50)\<rparr>,
      Process_video (Path ''v.MP4'') example_track (Path ''v_telemetry_temp.mp4'')
        \<lparr>show_altitude = True, show_speed = False, show_vertical_speed = True,
         show_coordinates = True, show_camera_settings = True, show_timestamp = True,
         show_speed_gauge = True, gauge_max_speed_kmh = VFloat (Fin 50)\<rparr>
        (Some Progress_bar)]"
  by (simp add: events_of_def main_simps cmd_overlay_def decl_simps run_simps path_simps
      example_simps Let_def)

theorem overlay_config_from_flags_witness:
  "''overlay'' \<in> {''overlay'', ''overlay-only'', ''frames''} \<and>
   (let given = [(''video'', VStr ''v.MP4''), (''no_speed'', VBool True)];
        evs = events_of (main example_package (Some ''overlay'') given) example_state;
        c = \<lparr>show_altitude = True, show_speed = False, show_vertical_speed = True,
             show_coordinates = True, show_camera_settings = True, show_timestamp = True,
             show_speed_gauge = True, gauge_max_speed_kmh = VFloat (Fin 50)\<rparr>
    in c \<in> set (List.map_filter built evs) \<and>
       (\<exists>ev \<in> set evs. config_of ev = Some c) \<and>
       length (List.map_filter built evs) \<le> 1 \<and>
       List.map_filter built (takeWhile (\<lambda>ev. config_of ev = None) evs) = [c] \<and>
       show_speed c = (\<not> flag given ''no_speed'') \<and>
       show_altitude c = (\<not> flag given ''no_altitude'') \<and>
       gauge_max_speed_kmh c = VFloat (Fin 50))"
  using overlay_config_from_flags
    [of example_package "[(''video'', VStr ''v.MP4''), (''no_speed'', VBool True)]"
      example_state]
  by (simp add: example_overlay_events List.map_filter_simps flag_def)


section \<open>The gauge scale of the frame sequence\<close>

lemma map_filter_takeWhile_subset:
  "set (List.map_filter f (takeWhile P xs)) \<subseteq> set (List.map_filter f xs)"
  by (auto simp: List.map_filter_def dest: set_takeWhileD)

text \<open>
  Claim C8. For every command line of the subcommand \<^verbatim>\<open>frames\<close>, the configuration
  passed to \<^verbatim>\<open>generate_overlay_frames\<close> has the gauge scale the class
  \<^verbatim>\<open>OverlayConfig\<close> defaults to: the parser of \<^verbatim>\<open>frames\<close> declares no attribute
  \<^verbatim>\<open>gauge_max\<close> (a command line that gives one is rejected) and \<^verbatim>\<open>cmd_frames\<close>
  leaves the argument out, whereas the parsers of \<^verbatim>\<open>overlay\<close> and
  \<^verbatim>\<open>overlay-only\<close> declare it with default 50.0.
\<close>

theorem frames_gauge_max_is_class_default:
  "(\<forall>t out w h f c fmt cb.
      Generate_overlay_frames t out w h f c fmt cb
        \<in> set (events_of (main E (Some ''frames'') given) s) \<longrightarrow>
      gauge_max_speed_kmh c = gauge_max_speed_kmh_default E) \<and>
   ''gauge_max'' \<notin> set (map dest p_frames) \<and>
   (accepted p_frames given \<longrightarrow> \<not> flag given ''gauge_max'') \<and>
   map_option arg_default (find (\<lambda>a. dest a = ''gauge_max'') p_overlay) =
     Some (VFloat (Fin 50)) \<and>
   map_option arg_default (find (\<lambda>a. dest a = ''gauge_max'') p_overlay_only) =
     Some (VFloat (Fin 50))"
proof (intro conjI allI impI)
  fix t out w h f c fmt cb
  assume ev: "Generate_overlay_frames t out w h f c fmt cb
      \<in> set (events_of (main E (Some ''frames'') given) s)"
  let ?evs = "events_of (main E (Some ''frames'') given) s"
  have conf: "configured (namespace_of p_frames given)
      (Some (gauge_max_speed_kmh_default E)) ?evs"
    by (rule main_frames_configured)
  with ev have "List.map_filter built (takeWhile (\<lambda>ev. config_of ev = None) ?evs) = [c]"
    by (fastforce simp: configured_def)
  then have "c \<in> set (List.map_filter built ?evs)"
    using map_filter_takeWhile_subset [of built "\<lambda>ev. config_of ev = None" ?evs] by auto
  with conf show "gauge_max_speed_kmh c = gauge_max_speed_kmh_default E"
    by (auto simp: configured_def)
next
  show "''gauge_max'' \<notin> set (map dest p_frames)"
    by (simp add: decl_simps)
next
  assume "accepted p_frames given"
  then show "\<not> flag given ''gauge_max''"
    by (auto simp: accepted_def flag_def list_all_iff list_ex_iff decl_simps)
next
  show "map_option arg_default (find (\<lambda>a. dest a = ''gauge_max'') p_overlay) =
     Some (VFloat (Fin 50))"
    by (simp add: decl_simps)
next
  show "map_option arg_default (find (\<lambda>a. dest a = ''gauge_max'') p_overlay_only) =
     Some (VFloat (Fin 50))"
    by (simp add: decl_simps)
qed

lemma example_frames_events:
  "events_of (main example_package (Some ''frames'') [(''srt'', VStr ''v.SRT'')])
       example_state =
     [Parse_srt (Path ''v.SRT''),
      New_OverlayConfig
        \<lparr>show_altitude = True, show_speed = True, show_vertical_speed = True,
         show_coordinates = True, show_camera_settings = True, show_timestamp = True,
         show_speed_gauge = True, gauge_max_speed_kmh = VFloat (Fin 100)\<rparr>,
      Generate_overlay_frames example_track (Path ''v_frames'') (VInt 1920) (VInt 1080)
        (VFloat (Fin 30))
        \<lparr>show_altitude = True, show_speed = True, show_vertical_speed = True,
         show_coordinates = True, show_camera_settings = True, show_timestamp = True,
         show_speed_gauge = True, gauge_max_speed_kmh = VFloat (Fin 100)\<rparr>
        (VStr ''png'') (Some Progress_bar)]"
  by (simp add: events_of_def main_simps cmd_frames_def decl_simps run_simps path_simps
      example_simps Let_def)

theorem frames_gauge_max_is_class_default_witness:
  "(let c = \<lparr>show_altitude = True, show_speed = True, show_vertical_speed = True,
         show_coordinates = True, show_camera_settings = True, show_timestamp = True,
         show_speed_gauge = True, gauge_max_speed_kmh = VFloat (Fin 100)\<rparr>
    in Generate_overlay_frames example_track (Path ''v_frames'') (VInt 1920) (VInt 1080)
        (VFloat (Fin 30)) c (VStr ''png'') (Some Progress_bar)
        \<in> set (events_of (main example_package (Some ''frames'') [(''srt'', VStr ''v.SRT'')])
             example_state) \<and>
       gauge_max_speed_kmh c = gauge_max_speed_kmh_default example_package) \<and>
   accepted p_frames [(''srt'', VStr ''v.SRT'')] \<and>
   \<not> flag [(''srt'', VStr ''v.SRT'')] ''gauge_max''"
proof -
  have dflt: "gauge_max_speed_kmh_default example_package = VFloat (Fin 100)"
    by (simp add: example_package_def)
  show ?thesis
    using frames_gauge_max_is_class_default
      [of example_package "[(''srt'', VStr ''v.SRT'')]" example_state]
    by (simp add: example_frames_events dflt accepted_def converted_def decl_simps flag_def)
qed


section \<open>File information\<close>

text \<open>
  Claim C7. On an existing path whose upper-cased suffix is one of \<^verbatim>\<open>.MP4\<close>,
  \<^verbatim>\<open>.MOV\<close>, \<^verbatim>\<open>.AVI\<close>, \<^verbatim>\<open>.MKV\<close>, \<^verbatim>\<open>cmd_info\<close> returns 0 only if the mapping
  returned by \<^verbatim>\<open>get_video_info\<close> has the keys \<^verbatim>\<open>width\<close>, \<^verbatim>\<open>height\<close>, \<^verbatim>\<open>fps\<close>,
  \<^verbatim>\<open>frame_count\<close> and \<^verbatim>\<open>duration_seconds\<close>; with these five present (the two
  formatted ones being floats) it does return 0; and it reads no other key: a
  mapping that agrees on the five gives the same run.
\<close>

theorem cmd_info_video_keys:
  assumes path: "args ''path'' = Some (VStr p)"
    and found: "files s (Path p) \<noteq> None"
    and video: "upper (suffix (Path p)) \<in> set video_suffixes"
    and probe: "get_video_info E (Path p) (files s) = (Inr info, fs, out)"
  shows "(fst (cmd_info E args s) = Inr 0 \<longrightarrow>
            {''width'', ''height'', ''fps'', ''frame_count'', ''duration_seconds''}
              \<subseteq> dom info) \<and>
         (\<forall>w h x n d.
            info ''width'' = Some w \<and> info ''height'' = Some h \<and>
            info ''fps'' = Some (VFloat x) \<and> info ''frame_count'' = Some n \<and>
            info ''duration_seconds'' = Some (VFloat d) \<longrightarrow>
            fst (cmd_info E args s) = Inr 0) \<and>
         (\<forall>E' info'.
            get_video_info E' (Path p) (files s) = (Inr info', fs, out) \<and>
            (\<forall>k \<in> {''width'', ''height'', ''fps'', ''frame_count'', ''duration_seconds''}.
               info' k = info k) \<longrightarrow>
            cmd_info E' args s = cmd_info E args s)"
proof (intro conjI allI impI)
  from video have not_srt: "upper (suffix (Path p)) \<noteq> ''.SRT''"
    by (auto simp: video_suffixes_def)
  have "after (cmd_info E args) s (\<lambda>r s'.
      (r = Inr 0 \<longrightarrow>
         {''width'', ''height'', ''fps'', ''frame_count'', ''duration_seconds''} \<subseteq> dom info) \<and>
      (\<forall>w h x n d.
         info ''width'' = Some w \<and> info ''height'' = Some h \<and>
         info ''fps'' = Some (VFloat x) \<and> info ''frame_count'' = Some n \<and>
         info ''duration_seconds'' = Some (VFloat d) \<longrightarrow> r = Inr 0))"
    unfolding cmd_info_def
    apply (insert path found video probe not_srt)
    apply (rule after_rules conjI impI allI | simp add: Path_of_def | force)+
    done
  then show "fst (cmd_info E args s) = Inr 0 \<Longrightarrow>
      {''width'', ''height'', ''fps'', ''frame_count'', ''duration_seconds''} \<subseteq> dom info"
    and "\<And>w h x n d. info ''width'' = Some w \<and> info ''height'' = Some h \<and>
         info ''fps'' = Some (VFloat x) \<and> info ''frame_count'' = Some n \<and>
         info ''duration_seconds'' = Some (VFloat d) \<Longrightarrow> fst (cmd_info E args s) = Inr 0"
    by (simp_all add: after_def)
next
  fix E' :: dji_telemetry and info'
  assume other: "get_video_info E' (Path p) (files s) = (Inr info', fs, out) \<and>
      (\<forall>k \<in> {''width'', ''height'', ''fps'', ''frame_count'', ''duration_seconds''}.
         info' k = info k)"
  from video have not_srt: "upper (suffix (Path p)) \<noteq> ''.SRT''"
    by (auto simp: video_suffixes_def)
  from found obtain content where content: "files s (Path p) = Some content"
    by auto
  from path content video probe not_srt other
  show "cmd_info E' args s = cmd_info E args s"
    by (simp add: cmd_info_def Path_of_def bindp_def ret_def raise_def lift_def
        stdout_write_def print_def path_exists_def call_def getattr_def getitem_def
        cong: sum.case_cong prod.case_cong option.case_cong)
qed


theorem cmd_info_video_keys_witness:
  "[''path'' \<mapsto> VStr ''v.MP4''] ''path'' = Some (VStr ''v.MP4'') \<and>
   files example_state (Path ''v.MP4'') \<noteq> None \<and>
   upper (suffix (Path ''v.MP4'')) \<in> set video_suffixes \<and>
   get_video_info example_package (Path ''v.MP4'') (files example_state) =
     (Inr example_info, files example_state, []) \<and>
   fst (cmd_info example_package [''path'' \<mapsto> VStr ''v.MP4''] example_state) = Inr 0 \<and>
   {''width'', ''height'', ''fps'', ''frame_count'', ''duration_seconds''}
     \<subseteq> dom example_info \<and>
   get_video_info
     (example_package\<lparr>get_video_info :=
        \<lambda>p fs. (Inr (example_info(''codec'' \<mapsto> VStr ''h264'')), fs, [])\<rparr>)
     (Path ''v.MP4'') (files example_state) =
     (Inr (example_info(''codec'' \<mapsto> VStr ''h264'')), files example_state, []) \<and>
   cmd_info
     (example_package\<lparr>get_video_info :=
        \<lambda>p fs. (Inr (example_info(''codec'' \<mapsto> VStr ''h264'')), fs, [])\<rparr>)
     [''path'' \<mapsto> VStr ''v.MP4''] example_state =
   cmd_info example_package [''path'' \<mapsto> VStr ''v.MP4''] example_state"
proof -
  have path: "[''path'' \<mapsto> VStr ''v.MP4''] ''path'' = Some (VStr ''v.MP4'')"
    by simp
  have found: "files example_state (Path ''v.MP4'') \<noteq> None"
    by (simp add: example_state_def Path_def splitroot_def)
  have video: "upper (suffix (Path ''v.MP4'')) \<in> set video_suffixes"
    by (simp add: Path_def splitroot_def suffix_def name_def rfind_def upper_def to_upper_def
        video_suffixes_def)
  have probe: "get_video_info example_package (Path ''v.MP4'') (files example_state) =
      (Inr example_info, files example_state, [])"
    by (simp add: example_package_def)
  have probe': "get_video_info
      (example_package\<lparr>get_video_info :=
         \<lambda>p fs. (Inr (example_info(''codec'' \<mapsto> VStr ''h264'')), fs, [])\<rparr>)
      (Path ''v.MP4'') (files example_state) =
      (Inr (example_info(''codec'' \<mapsto> VStr ''h264'')), files example_state, [])"
    by simp
  have keys: "example_info ''width'' = Some (VInt 1920) \<and>
      example_info ''height'' = Some (VInt 1080) \<and>
      example_info ''fps'' = Some (VFloat (Fin 30)) \<and>
      example_info ''frame_count'' = Some (VInt 50) \<and>
      example_info ''duration_seconds'' = Some (VFloat (Fin 2))"
    by (simp add: example_info_def)
  have same: "\<forall>k \<in> {''width'', ''height'', ''fps'', ''frame_count'', ''duration_seconds''}.
      (example_info(''codec'' \<mapsto> VStr ''h264'')) k = example_info k"
    by simp
  from cmd_info_video_keys
      [where args = "[''path'' \<mapsto> VStr ''v.MP4'']", OF path found video probe]
    keys probe' same
  show ?thesis
    using path found video probe by blast
qed

text \<open>
  Claim C10. On an existing path with suffix \<^verbatim>\<open>.SRT\<close> (in any letter case) whose
  track has been parsed, \<^verbatim>\<open>cmd_info\<close> returns 0 exactly when the track has both
  start and end coordinates; when either is \<^verbatim>\<open>None\<close>, subscripting it raises
  \<^verbatim>\<open>TypeError\<close>: there is no check.
\<close>

theorem cmd_info_needs_coordinates:
  assumes path: "args ''path'' = Some (VStr p)"
    and found: "files s (Path p) \<noteq> None"
    and srt: "upper (suffix (Path p)) = ''.SRT''"
    and parsed: "parse_srt E (Path p) (files s) = (Inr t, fs, out)"
  shows "(fst (cmd_info E args s) = Inr 0 \<longleftrightarrow>
            start_coordinates t \<noteq> None \<and> end_coordinates t \<noteq> None) \<and>
         (start_coordinates t = None \<or> end_coordinates t = None \<longrightarrow>
            fst (cmd_info E args s) = Inl TypeError)"
proof -
  have "after (cmd_info E args) s (\<lambda>r s'.
      (r = Inr 0 \<longleftrightarrow> start_coordinates t \<noteq> None \<and> end_coordinates t \<noteq> None) \<and>
      (start_coordinates t = None \<or> end_coordinates t = None \<longrightarrow> r = Inl TypeError))"
    unfolding cmd_info_def
    apply (insert assms)
    apply (rule after_rules conjI impI allI | simp add: Path_of_def)+
    done
  then show ?thesis
    by (simp add: after_def)
qed


theorem cmd_info_needs_coordinates_witness:
  "[''path'' \<mapsto> VStr ''v.SRT''] ''path'' = Some (VStr ''v.SRT'') \<and>
   files example_state (Path ''v.SRT'') \<noteq> None \<and>
   upper (suffix (Path ''v.SRT'')) = ''.SRT'' \<and>
   parse_srt example_package (Path ''v.SRT'') (files example_state) =
     (Inr example_track, files example_state, []) \<and>
   start_coordinates example_track \<noteq> None \<and> end_coordinates example_track \<noteq> None \<and>
   fst (cmd_info example_package [''path'' \<mapsto> VStr ''v.SRT''] example_state) = Inr 0 \<and>
   parse_srt (example_package\<lparr>parse_srt :=
       \<lambda>p fs. (Inr (example_track\<lparr>start_coordinates := None\<rparr>), fs, [])\<rparr>)
     (Path ''v.SRT'') (files example_state) =
     (Inr (example_track\<lparr>start_coordinates := None\<rparr>), files example_state, []) \<and>
   start_coordinates (example_track\<lparr>start_coordinates := None\<rparr>) = None \<and>
   fst (cmd_info
         (example_package\<lparr>parse_srt :=
            \<lambda>p fs. (Inr (example_track\<lparr>start_coordinates := None\<rparr>), fs, [])\<rparr>)
         [''path'' \<mapsto> VStr ''v.SRT''] example_state) = Inl TypeError"
proof -
  have path: "[''path'' \<mapsto> VStr ''v.SRT''] ''path'' = Some (VStr ''v.SRT'')"
    by simp
  have found: "files example_state (Path ''v.SRT'') \<noteq> None"
    by (simp add: example_state_def Path_def splitroot_def)
  have srt: "upper (suffix (Path ''v.SRT'')) = ''.SRT''"
    by (simp add: Path_def splitroot_def suffix_def name_def rfind_def upper_def to_upper_def)
  have parsed: "parse_srt example_package (Path ''v.SRT'') (files example_state) =
      (Inr example_track, files example_state, [])"
    by (simp add: example_package_def)
  have parsed': "parse_srt (example_package\<lparr>parse_srt :=
        \<lambda>p fs. (Inr (example_track\<lparr>start_coordinates := None\<rparr>), fs, [])\<rparr>)
      (Path ''v.SRT'') (files example_state) =
      (Inr (example_track\<lparr>start_coordinates := None\<rparr>), files example_state, [])"
    by simp
  have coords: "start_coordinates example_track \<noteq> None \<and>
      end_coordinates example_track \<noteq> None"
    by (simp add: example_track_def)
  from cmd_info_needs_coordinates
      [where args = "[''path'' \<mapsto> VStr ''v.SRT'']", OF path found srt parsed]
    coords
    cmd_info_needs_coordinates
      [where args = "[''path'' \<mapsto> VStr ''v.SRT'']", OF path found srt parsed']
  show ?thesis
    using path found srt parsed parsed' by simp
qed

section \<open>Floating point arithmetic\<close>

lemma ilog2_bounds:
  assumes "0 < x"
  shows "2 powi (ilog2 x) \<le> x \<and> x < 2 powi (ilog2 x + 1)"
proof -
  obtain p q where pq: "quotient_of x = (p, q)"
    by force
  then have q: "0 < q"
    by (rule quotient_of_denom_pos)
  from pq have x: "x = of_int p / of_int q"
    by (rule quotient_of_div)
  with assms q have p: "0 < p"
    by (simp add: zero_less_divide_iff)
  define bp where "bp = bitlen p"
  define bq where "bq = bitlen q"
  have bp1: "1 \<le> bp"
    using bitlen_bounds [OF p] p by (cases "bp \<le> 0") (auto simp: bp_def)
  have bq1: "1 \<le> bq"
    using bitlen_bounds [OF q] q by (cases "bq \<le> 0") (auto simp: bq_def)
  have "(of_int (2 ^ nat (bp - 1)) :: rat) \<le> of_int p"
    using bitlen_bounds [OF p] unfolding bp_def by (simp only: of_int_le_iff)
  with bp1 have p_lo: "(2::rat) powi (bp - 1) \<le> of_int p"
    by (simp add: power_int_nonneg_exp)
  have "(of_int p :: rat) < of_int (2 ^ nat bp)"
    using bitlen_bounds [OF p] unfolding bp_def by (simp only: of_int_less_iff)
  with bp1 have p_hi: "of_int p < (2::rat) powi bp"
    by (simp add: power_int_nonneg_exp)
  have "(of_int (2 ^ nat (bq - 1)) :: rat) \<le> of_int q"
    using bitlen_bounds [OF q] unfolding bq_def by (simp only: of_int_le_iff)
  with bq1 have q_lo: "(2::rat) powi (bq - 1) \<le> of_int q"
    by (simp add: power_int_nonneg_exp)
  have "(of_int q :: rat) < of_int (2 ^ nat bq)"
    using bitlen_bounds [OF q] unfolding bq_def by (simp only: of_int_less_iff)
  with bq1 have q_hi: "of_int q < (2::rat) powi bq"
    by (simp add: power_int_nonneg_exp)
  have "(2::rat) powi (bp - 1) / 2 powi bq < of_int p / of_int q"
    using p_lo q_hi q by (intro frac_less2) simp_all
  moreover have "(2::rat) powi (bp - bq - 1) = 2 powi (bp - 1) / 2 powi bq"
    using power_int_diff [of "2::rat" "bp - 1" bq] by (simp add: algebra_simps)
  ultimately have lower: "(2::rat) powi (bp - bq - 1) < x"
    by (simp add: x)
  have "of_int p / of_int q < (2::rat) powi bp / 2 powi (bq - 1)"
    using p_hi q_lo p by (intro frac_less) simp_all
  moreover have "(2::rat) powi (bp - bq + 1) = 2 powi bp / 2 powi (bq - 1)"
    using power_int_diff [of "2::rat" bp "bq - 1"] by (simp add: algebra_simps)
  ultimately have upper: "x < (2::rat) powi (bp - bq + 1)"
    by (simp add: x)
  show ?thesis
  proof (cases "(2::rat) powi (bp - bq) \<le> x")
    case True
    then have "ilog2 x = bp - bq"
      by (simp add: ilog2_def pq bp_def bq_def)
    with True upper show ?thesis by simp
  next
    case False
    then have "ilog2 x = bp - bq - 1"
      by (simp add: ilog2_def pq bp_def bq_def)
    with False lower show ?thesis by simp
  qed
qed


lemma ilog2_unique:
  assumes "2 powi e \<le> x" and "x < 2 powi (e + 1)"
  shows "ilog2 x = e"
proof -
  have pos: "0 < x"
    using assms(1) zero_less_power_int [of "2::rat" e] by linarith
  note b = ilog2_bounds [OF pos]
  have "\<not> ilog2 x < e"
  proof
    assume "ilog2 x < e"
    then have "(2::rat) powi (ilog2 x + 1) \<le> 2 powi e"
      by (intro power_int_increasing) simp_all
    with b assms show False by linarith
  qed
  moreover have "\<not> e < ilog2 x"
  proof
    assume "e < ilog2 x"
    then have "(2::rat) powi (e + 1) \<le> 2 powi (ilog2 x)"
      by (intro power_int_increasing) simp_all
    with b assms show False by linarith
  qed
  ultimately show ?thesis by simp
qed

lemma round_half_even_le:
  "y \<le> of_int n \<Longrightarrow> round_half_even y \<le> n"
  unfolding round_half_even_def Let_def
  by (auto; linarith)

lemma round_half_even_ge:
  "of_int n \<le> y \<Longrightarrow> n \<le> round_half_even y"
  unfolding round_half_even_def Let_def
  by (auto; linarith)


lemma round_half_even_of_int [simp]: "round_half_even (of_int n) = n"
  by (simp add: round_half_even_def)

lemma fl_round_grid:
  assumes pos: "0 < x" and le: "x \<le> B"
    and grid: "B = of_int m * 2 powi (max (ilog2 x) (- 1022) - 52)"
    and small: "B < 2 ^ 1024"
  shows "\<exists>r. fl_round x = Fin r \<and> 0 \<le> r \<and> r \<le> B"
proof -
  define k where "k = max (ilog2 x) (- 1022) - 52"
  define r where "r = (of_int (round_half_even (x / 2 powi k)) :: rat) * 2 powi k"
  have kpos: "(0::rat) < 2 powi k"
    by simp
  have "x / 2 powi k \<le> of_int m"
    using le grid kpos by (simp add: k_def field_simps)
  then have "round_half_even (x / 2 powi k) \<le> m"
    by (rule round_half_even_le)
  then have "(of_int (round_half_even (x / 2 powi k)) :: rat) \<le> of_int m"
    by simp
  then have upper: "r \<le> B"
    unfolding r_def grid k_def [symmetric] using kpos by (simp add: mult_right_mono)
  have "of_int 0 \<le> x / 2 powi k"
    using pos kpos by simp
  then have "0 \<le> round_half_even (x / 2 powi k)"
    by (rule round_half_even_ge)
  then have lower: "0 \<le> r"
    unfolding r_def using kpos by simp
  from lower upper small have "\<not> 2 ^ 1024 \<le> \<bar>r\<bar>"
    by simp
  with pos have "fl_round x = Fin r"
    by (simp add: fl_round_def Let_def k_def [symmetric] r_def [symmetric] abs_of_pos)
  with lower upper show ?thesis by blast
qed

lemma ilog2_le_53:
  assumes pos: "0 < x" and le: "x \<le> of_int b" and b: "b \<le> 2 ^ 53"
  shows "ilog2 x \<le> 52 \<or> (ilog2 x = 53 \<and> x = 2 ^ 53 \<and> b = 2 ^ 53)"
proof (cases "ilog2 x \<le> 52")
  case True
  then show ?thesis by simp
next
  case False
  then have "53 \<le> ilog2 x" by simp
  then have "(2::rat) powi 53 \<le> 2 powi (ilog2 x)"
    by (intro power_int_increasing) simp_all
  moreover have "(of_int b :: rat) \<le> of_int (2 ^ 53)"
    using b by (simp only: of_int_le_iff)
  ultimately have x: "x = 2 ^ 53" and b': "(of_int b :: rat) = 2 ^ 53"
    using ilog2_bounds [OF pos] le by simp_all
  then have "x < 2 powi (53 + 1)" and "2 powi 53 \<le> x"
    by simp_all
  then have "ilog2 x = 53"
    by (intro ilog2_unique) simp_all
  moreover from b' have "b = 2 ^ 53"
    by (metis of_int_eq_iff of_int_numeral of_int_power)
  ultimately show ?thesis using x by simp
qed

lemma grid_of_int:
  assumes "k \<le> 0"
  shows "(of_int b :: rat) = of_int (b * 2 ^ nat (- k)) * 2 powi k"
proof -
  have "(2::rat) powi k = 1 / 2 ^ nat (- k)"
    using assms by (simp add: power_int_def power_one_over)
  then show ?thesis by simp
qed

lemma fl_round_bounded:
  assumes nonneg: "0 \<le> x" and le: "x \<le> of_int b" and b: "b \<le> 2 ^ 53"
  shows "\<exists>r. fl_round x = Fin r \<and> 0 \<le> r \<and> r \<le> of_int b"
proof (cases "x = 0")
  case True
  with le show ?thesis
    by (simp add: fl_round_def)
next
  case False
  with nonneg have pos: "0 < x" by simp
  have "(of_int b :: rat) \<le> of_int (2 ^ 53)"
    using b by (simp only: of_int_le_iff)
  then have small: "(of_int b :: rat) < 2 ^ 1024"
    by simp
  from ilog2_le_53 [OF pos le b] show ?thesis
  proof
    assume e: "ilog2 x \<le> 52"
    then have "max (ilog2 x) (- 1022) - 52 \<le> 0" by simp
    from grid_of_int [OF this] fl_round_grid [OF pos le _ small]
    show ?thesis by blast
  next
    assume e: "ilog2 x = 53 \<and> x = 2 ^ 53 \<and> b = 2 ^ 53"
    then have "ilog2 x = 53" by blast
    then have k: "max (ilog2 x) (- 1022) - 52 = 1" by simp
    from e have "b = 2 ^ 53" by blast
    then have "(of_int b :: rat) = of_int (2 ^ 52) * 2 powi (max (ilog2 x) (- 1022) - 52)"
      unfolding k by simp
    from fl_round_grid [OF pos le this small]
    show ?thesis by blast
  qed
qed

lemma fl_round_of_int:
  assumes "0 \<le> w" and "w \<le> 2 ^ 53"
  shows "fl_round (of_int w) = Fin (of_int w)"
proof (cases "w = 0")
  case True
  then show ?thesis by (simp add: fl_round_def)
next
  case False
  with assms have pos: "(0::rat) < of_int w" by simp
  define k where "k = max (ilog2 (of_int w)) (- 1022) - 52"
  have "\<exists>m. (of_int w :: rat) = of_int m * 2 powi k"
    using ilog2_le_53 [OF pos order_refl assms(2)]
  proof
    assume "ilog2 (of_int w) \<le> 52"
    then have "k \<le> 0" by (simp add: k_def)
    from grid_of_int [OF this] show ?thesis by blast
  next
    assume e: "ilog2 (of_int w) = 53 \<and> (of_int w :: rat) = 2 ^ 53 \<and> w = 2 ^ 53"
    then have "ilog2 (of_int w) = 53" by blast
    then have k: "k = 1" by (simp add: k_def)
    from e have "w = 2 ^ 53" by blast
    then have "(of_int w :: rat) = of_int (2 ^ 52) * 2 powi k"
      unfolding k by simp
    then show ?thesis by blast
  qed
  then obtain m where m: "(of_int w :: rat) = of_int m * 2 powi k" ..
  have "(of_int w :: rat) / 2 powi k = of_int m"
    by (simp add: m)
  then have r: "(of_int (round_half_even (of_int w / 2 powi k)) :: rat) * 2 powi k = of_int w"
    by (simp add: m)
  have "(of_int w :: rat) \<le> of_int (2 ^ 53)"
    using assms(2) by (simp only: of_int_le_iff)
  then have "\<not> 2 ^ 1024 \<le> \<bar>of_int w :: rat\<bar>"
    using pos by simp
  with pos r show ?thesis
    by (simp add: fl_round_def Let_def k_def [symmetric] del: of_int_abs)
qed


lemma round_half_even_eval:
  assumes "of_int n \<le> y" and "y < of_int n + 1"
  shows "round_half_even y =
     (if y - of_int n < 1 / 2 then n else if 1 / 2 < y - of_int n then n + 1
      else if even n then n else n + 1)"
  using floor_unique [OF assms] by (simp add: round_half_even_def Let_def)

lemma fl_round_eval:
  assumes "2 powi e \<le> x" and "x < 2 powi (e + 1)" and "- 1022 \<le> e"
    and "of_int n \<le> x / 2 powi (e - 52)" and "x / 2 powi (e - 52) < of_int n + 1"
    and "(if x / 2 powi (e - 52) - of_int n < 1 / 2 then n
          else if 1 / 2 < x / 2 powi (e - 52) - of_int n then n + 1
          else if even n then n else n + 1) = m"
    and "of_int m * 2 powi (e - 52) = r" and "\<bar>r\<bar> < 2 ^ 1024"
  shows "fl_round x = Fin r"
proof -
  have pos: "0 < x"
    using assms(1) zero_less_power_int [of "2::rat" e] by linarith
  have "ilog2 \<bar>x\<bar> = e"
    using assms(1,2) pos by (intro ilog2_unique) simp_all
  with assms(3) have k: "max (ilog2 \<bar>x\<bar>) (- 1022) - 52 = e - 52"
    by simp
  have "round_half_even (x / 2 powi (e - 52)) = m"
    using round_half_even_eval [OF assms(4,5)] assms(6) by simp
  with pos k assms(7,8) show ?thesis
    by (simp add: fl_round_def Let_def)
qed

lemma float_lit_3_6: "float_lit (36 / 10) = Fin (8106479329266893 / 2251799813685248)"
  unfolding float_lit_def
  by (rule fl_round_eval [where e = 1 and n = 8106479329266892 and m = 8106479329266893])
     simp_all

lemma int_truediv_29_50: "int_truediv 29 50 = Inr (Fin (5224175567749775 / 9007199254740992))"
proof -
  have "fl_round (29 / 50) = Fin (5224175567749775 / 9007199254740992)"
    by (rule fl_round_eval
          [where e = "- 1" and n = 5224175567749775 and m = 5224175567749775])
       simp_all
  then show ?thesis
    by (simp add: int_truediv_def)
qed

lemma float_mul_50_percent:
  "float_mul (Fin 50) (Fin (5224175567749775 / 9007199254740992)) =
     Fin (8162774324609023 / 281474976710656)"
proof -
  have "fl_round (50 * (5224175567749775 / 9007199254740992)) =
      Fin (8162774324609023 / 281474976710656)"
    by (rule fl_round_eval [where e = 4 and n = 8162774324609023 and m = 8162774324609023])
       simp_all
  then show ?thesis by simp
qed

lemma float_mul_percent_100:
  "float_mul (Fin (5224175567749775 / 9007199254740992)) (Fin 100) =
     Fin (8162774324609023 / 140737488355328)"
proof -
  have "fl_round (5224175567749775 / 9007199254740992 * 100) =
      Fin (8162774324609023 / 140737488355328)"
    by (rule fl_round_eval [where e = 5 and n = 8162774324609023 and m = 8162774324609023])
       simp_all
  then show ?thesis by simp
qed

lemma str_mul_char: "str_mul [c] n = replicate (nat n) c"
  by (induction "nat n" arbitrary: n) (simp_all add: str_mul_def replicate_append_same)



section \<open>The progress bar\<close>

lemma int_truediv_unit:
  assumes "0 \<le> c" and "c \<le> t" and "1 \<le> t"
  shows "\<exists>p. int_truediv c t = Inr (Fin p) \<and> 0 \<le> p \<and> p \<le> 1"
proof -
  have "(0::rat) \<le> of_int c / of_int t" and "(of_int c :: rat) / of_int t \<le> of_int 1"
    using assms by simp_all
  from fl_round_bounded [OF this] obtain p
    where "fl_round (of_int c / of_int t) = Fin p" "0 \<le> p" "p \<le> 1"
    by auto
  with assms(3) show ?thesis
    by (simp add: int_truediv_def)
qed

lemma filled_in_range:
  assumes "0 \<le> p" and "p \<le> 1" and "0 \<le> w" and "w \<le> 2 ^ 53"
  shows "int_mul_float w (Fin p) = Inr (float_mul (Fin (of_int w)) (Fin p)) \<and>
         (\<exists>n. float_to_int (float_mul (Fin (of_int w)) (Fin p)) = Inr n \<and> 0 \<le> n \<and> n \<le> w)"
proof -
  have conv: "int_to_float w = Inr (Fin (of_int w))"
    using fl_round_of_int [OF assms(3,4)] by (simp add: int_to_float_def)
  have "(0::rat) \<le> of_int w * p"
    using assms by simp
  moreover have "of_int w * p \<le> (of_int w :: rat)"
    using assms by (simp add: mult_left_le)
  ultimately obtain q where q: "fl_round (of_int w * p) = Fin q" "0 \<le> q" "q \<le> of_int w"
    using fl_round_bounded [OF _ _ assms(4)] by blast
  then have "0 \<le> \<lfloor>q\<rfloor>" and "\<lfloor>q\<rfloor> \<le> w"
    by (simp_all add: floor_le_iff)
  with q conv show ?thesis
    by (simp add: int_mul_float_def float_to_int_def)
qed

text \<open>
  Claim C9, as amended. \<^verbatim>\<open>progress_bar\<close> divides by \<open>total\<close> without a guard: for
  \<open>total = 0\<close> it raises \<^verbatim>\<open>ZeroDivisionError\<close> and prints nothing. For
  \<open>0 \<le> current \<le> total\<close>, \<open>1 \<le> total\<close> and \<open>0 \<le> width \<le> 2 ^ 53\<close> it raises
  nothing; the bar has exactly \<open>width\<close> characters, \<open>=\<close> for a prefix of length
  \<open>filled\<close> and \<open>-\<close> for the rest, where \<open>filled\<close> is the float product of
  \<open>width\<close> and the float quotient \<open>current / total\<close>, truncated, and lies between
  0 and \<open>width\<close>; and the line ends with a newline exactly when
  \<open>current = total\<close>.
\<close>

theorem progress_bar_line:
  assumes "0 \<le> current" and "current \<le> total'" and "1 \<le> total'"
    and "0 \<le> width" and "width \<le> 2 ^ 53"
  shows "progress_bar current 0 width s = (Inl ZeroDivisionError, s) \<and>
    (\<exists>percent filled.
       int_truediv current total' = Inr (Fin percent) \<and>
       float_to_int (float_mul (Fin (of_int width)) (Fin percent)) = Inr filled \<and>
       0 \<le> filled \<and> filled \<le> width \<and>
       fst (progress_bar current total' width s) = Inr () \<and>
       output_of (progress_bar current total' width) s =
         [Lit (carriage_return @ ''[''),
          Str (replicate (nat filled) CHR ''='' @ replicate (nat (width - filled)) CHR ''-''),
          Lit ''] '', Fixed 1 (float_mul (Fin percent) (Fin 100)), Lit ''% ('',
          Dec current, Lit ''/'', Dec total', Lit '')'']
         @ (if current = total' then [Lit newline] else []) \<and>
       length (replicate (nat filled) CHR ''='' @ replicate (nat (width - filled)) CHR ''-'') =
         nat width)"
proof
  show "progress_bar current 0 width s = (Inl ZeroDivisionError, s)"
    by (simp add: progress_bar_def int_truediv_def bindp_def lift_def)
next
  from int_truediv_unit [OF assms(1,2,3)] obtain percent
    where p: "int_truediv current total' = Inr (Fin percent)" "0 \<le> percent" "percent \<le> 1"
    by blast
  from filled_in_range [OF p(2,3) assms(4,5)] obtain filled
    where f: "int_mul_float width (Fin percent) =
        Inr (float_mul (Fin (of_int width)) (Fin percent))"
      "float_to_int (float_mul (Fin (of_int width)) (Fin percent)) = Inr filled"
      "0 \<le> filled" "filled \<le> width"
    by blast
  have run: "progress_bar current total' width s =
      (Inr (),
       s\<lparr>stdout := stdout s @
          [Lit (carriage_return @ ''[''),
           Str (replicate (nat filled) CHR ''='' @ replicate (nat (width - filled)) CHR ''-''),
           Lit ''] '', Fixed 1 (float_mul (Fin percent) (Fin 100)), Lit ''% ('',
           Dec current, Lit ''/'', Dec total', Lit '')'']
          @ (if current = total' then [Lit newline] else [])\<rparr>)"
    using p(1) f(1,2)
    by (simp add: progress_bar_def bindp_def lift_def stdout_write_def print_def ret_def
        str_mul_char Let_def del: float_mul.simps)
  have len: "length (replicate (nat filled) CHR ''='' @
      replicate (nat (width - filled)) CHR ''-'') = nat width"
    using f(3,4) by simp
  from p(1) f(2,3,4) run len
  show "\<exists>percent filled.
       int_truediv current total' = Inr (Fin percent) \<and>
       float_to_int (float_mul (Fin (of_int width)) (Fin percent)) = Inr filled \<and>
       0 \<le> filled \<and> filled \<le> width \<and>
       fst (progress_bar current total' width s) = Inr () \<and>
       output_of (progress_bar current total' width) s =
         [Lit (carriage_return @ ''[''),
          Str (replicate (nat filled) CHR ''='' @ replicate (nat (width - filled)) CHR ''-''),
          Lit ''] '', Fixed 1 (float_mul (Fin percent) (Fin 100)), Lit ''% ('',
          Dec current, Lit ''/'', Dec total', Lit '')'']
         @ (if current = total' then [Lit newline] else []) \<and>
       length (replicate (nat filled) CHR ''='' @ replicate (nat (width - filled)) CHR ''-'') =
         nat width"
    by (intro exI [of _ percent] exI [of _ filled]) (simp add: output_of_def)
qed

lemma progress_bar_29_50:
  "progress_bar 29 50 50 s =
     (Inr (),
      s\<lparr>stdout := stdout s @
         [Lit (carriage_return @ ''[''),
          Str (replicate 28 CHR ''='' @ replicate 22 CHR ''-''),
          Lit ''] '', Fixed 1 (Fin (8162774324609023 / 140737488355328)), Lit ''% ('',
          Dec 29, Lit ''/'', Dec 50, Lit '')'']\<rparr>)"
proof -
  have conv: "int_to_float 50 = Inr (Fin 50)"
    using fl_round_of_int [of 50] by (simp add: int_to_float_def)
  have trunc: "float_to_int (Fin (8162774324609023 / 281474976710656)) = Inr 28"
    by (simp add: float_to_int_def) (rule floor_unique, simp_all)
  show ?thesis
    using int_truediv_29_50 float_mul_50_percent float_mul_percent_100 conv trunc
    by (simp add: progress_bar_def bindp_def lift_def stdout_write_def print_def ret_def
        str_mul_char int_mul_float_def Let_def del: float_mul.simps)
qed

lemma progress_bar_negative_width:
  "progress_bar 0 1 (- 5) s =
     (Inr (),
      s\<lparr>stdout := stdout s @
         [Lit (carriage_return @ ''[''), Str [], Lit ''] '', Fixed 1 (Fin 0), Lit ''% ('',
          Dec 0, Lit ''/'', Dec 1, Lit '')'']\<rparr>)"
proof -
  have percent: "int_truediv 0 1 = Inr (Fin 0)"
    by (simp add: int_truediv_def fl_round_def)
  have "ilog2 \<bar>- 5\<bar> = 2"
    by (rule ilog2_unique) simp_all
  then have "fl_round (- 5) = Fin (- 5)"
    using round_half_even_of_int [of "- 5629499534213120"]
    by (simp add: fl_round_def Let_def del: round_half_even_of_int)
  then have conv: "int_to_float (- 5) = Inr (Fin (- 5))"
    by (simp add: int_to_float_def)
  show ?thesis
    using percent conv
    by (simp add: progress_bar_def bindp_def lift_def stdout_write_def print_def ret_def
        str_mul_def int_mul_float_def float_to_int_def fl_round_def Let_def)
qed

lemma progress_bar_wide:
  "progress_bar 1 1 9007199254740995 s =
     (Inr (),
      s\<lparr>stdout := stdout s @
         [Lit (carriage_return @ ''[''),
          Str (replicate 9007199254740996 CHR ''=''), Lit ''] '', Fixed 1 (Fin 100),
          Lit ''% ('', Dec 1, Lit ''/'', Dec 1, Lit '')'', Lit newline]\<rparr>)"
proof -
  have percent: "int_truediv 1 1 = Inr (Fin 1)"
    using fl_round_of_int [of 1] by (simp add: int_truediv_def)
  have "fl_round 9007199254740995 = Fin 9007199254740996"
    by (rule fl_round_eval
          [where e = 53 and n = 4503599627370497 and m = 4503599627370498])
       simp_all
  then have conv: "int_to_float 9007199254740995 = Inr (Fin 9007199254740996)"
    by (simp add: int_to_float_def)
  have prod: "fl_round 9007199254740996 = Fin 9007199254740996"
    by (rule fl_round_eval
          [where e = 53 and n = 4503599627370498 and m = 4503599627370498])
       simp_all
  have hundred: "fl_round 100 = Fin 100"
    using fl_round_of_int [of 100] by simp
  show ?thesis
    using percent conv prod hundred
    by (simp add: progress_bar_def bindp_def lift_def stdout_write_def print_def ret_def
        str_mul_char int_mul_float_def float_to_int_def Let_def)
qed

text \<open>
  The prefix is not always \<open>\<lfloor>width * current / total\<rfloor>\<close> characters long: at frame 29
  of 50 with the default width the quotient is the float below 0.58, its product
  with 50 is the float below 29, and the bar shows 28 characters \<open>=\<close>. A width
  above \<open>2 ^ 53\<close> need not be a float (the bar for \<open>2 ^ 53 + 3\<close> is one character
  too long), and for a negative width the bar is empty.
\<close>

theorem progress_bar_floor_counterexample:
  "((0::int) \<le> 29 \<and> (29::int) \<le> 50 \<and> (1::int) \<le> 50 \<and>
    output_of (progress_bar 29 50 50) example_state =
      [Lit (carriage_return @ ''[''),
       Str (replicate 28 CHR ''='' @ replicate 22 CHR ''-''),
       Lit ''] '', Fixed 1 (Fin (8162774324609023 / 140737488355328)), Lit ''% ('',
       Dec 29, Lit ''/'', Dec 50, Lit '')''] \<and>
    \<lfloor>(50 :: rat) * 29 / 50\<rfloor> = 29 \<and>
    replicate 28 CHR ''='' @ replicate 22 CHR ''-'' \<noteq>
      replicate (nat \<lfloor>(50 :: rat) * 29 / 50\<rfloor>) CHR ''='' @
      replicate (nat (50 - \<lfloor>(50 :: rat) * 29 / 50\<rfloor>)) CHR ''-'') \<and>
   ((0::int) \<le> 1 \<and> (1::int) \<le> 1 \<and>
    output_of (progress_bar 1 1 9007199254740995) example_state =
      [Lit (carriage_return @ ''[''),
       Str (replicate 9007199254740996 CHR ''=''), Lit ''] '', Fixed 1 (Fin 100),
       Lit ''% ('', Dec 1, Lit ''/'', Dec 1, Lit '')'', Lit newline] \<and>
    int (length (replicate 9007199254740996 CHR ''='')) \<noteq> 9007199254740995) \<and>
   ((0::int) \<le> 0 \<and> (0::int) \<le> 1 \<and>
    output_of (progress_bar 0 1 (- 5)) example_state =
      [Lit (carriage_return @ ''[''), Str [], Lit ''] '', Fixed 1 (Fin 0), Lit ''% ('',
       Dec 0, Lit ''/'', Dec 1, Lit '')''] \<and>
    int (length ([] :: string)) \<noteq> - 5)"
proof -
  have fl: "\<lfloor>(50 :: rat) * 29 / 50\<rfloor> = 29"
    by simp
  have ne: "replicate 28 CHR ''='' @ replicate 22 CHR ''-'' \<noteq>
      replicate 29 CHR ''='' @ replicate 21 CHR ''-''"
    by (simp add: eval_nat_numeral)
  show ?thesis
    using ne
    by (simp add: progress_bar_29_50 progress_bar_wide progress_bar_negative_width
        output_of_def fl)
qed

theorem progress_bar_line_witness:
  "(0::int) \<le> 29 \<and> (29::int) \<le> 50 \<and> (1::int) \<le> 50 \<and> (0::int) \<le> 50 \<and> (50::int) \<le> 2 ^ 53 \<and>
   progress_bar 29 0 50 example_state = (Inl ZeroDivisionError, example_state) \<and>
   (\<exists>percent filled.
      int_truediv 29 50 = Inr (Fin percent) \<and>
      float_to_int (float_mul (Fin (of_int 50)) (Fin percent)) = Inr filled \<and>
      0 \<le> filled \<and> filled \<le> 50 \<and>
      fst (progress_bar 29 50 50 example_state) = Inr () \<and>
      length (replicate (nat filled) CHR ''='' @ replicate (nat (50 - filled)) CHR ''-'') =
        nat 50)"
  using progress_bar_line [of 29 50 50 example_state]
  by auto

section \<open>Speeds are displayed in km/h\<close>

lemma cmd_overlay_speed:
  "after (cmd_overlay E args) s (\<lambda>r s'.
     (\<forall>x \<in> set (kmh_values (drop (length (stdout s)) (stdout s'))).
        \<exists>p t fs out. parse_srt E p (files s) = (Inr t, fs, out) \<and>
          x = float_mul (max_speed t) (float_lit (36 / 10))) \<and>
     (\<forall>p t fs out. Parse_srt p \<in> set (drop (length (trace s)) (trace s')) \<and>
          parse_srt E p (files s) = (Inr t, fs, out) \<longrightarrow>
        kmh_values (drop (length (stdout s)) (stdout s')) =
          [float_mul (max_speed t) (float_lit (36 / 10))]))"
  unfolding cmd_overlay_def
  by (rule after_rules conjI impI allI | simp add: newline_def | blast)+

lemma cmd_info_speed:
  "after (cmd_info E args) s (\<lambda>r s'.
     (\<forall>x \<in> set (kmh_values (drop (length (stdout s)) (stdout s'))).
        \<exists>p t fs out. parse_srt E p (files s) = (Inr t, fs, out) \<and>
          x = float_mul (max_speed t) (float_lit (36 / 10))) \<and>
     (\<forall>p t fs out. Parse_srt p \<in> set (drop (length (trace s)) (trace s')) \<and>
          parse_srt E p (files s) = (Inr t, fs, out) \<longrightarrow>
        kmh_values (drop (length (stdout s)) (stdout s')) =
          [float_mul (max_speed t) (float_lit (36 / 10))]))"
  unfolding cmd_info_def
  by (rule after_rules conjI impI allI | simp add: newline_def | blast)+

lemma cmd_overlay_only_no_speed:
  "after (cmd_overlay_only E args) s (\<lambda>r s'.
     kmh_values (drop (length (stdout s)) (stdout s')) = [])"
  unfolding cmd_overlay_only_def
  by (rule after_rules conjI impI allI | simp add: newline_def)+

lemma cmd_frames_no_speed:
  "after (cmd_frames E args) s (\<lambda>r s'.
     kmh_values (drop (length (stdout s)) (stdout s')) = [])"
  unfolding cmd_frames_def
  by (rule after_rules conjI impI allI | simp add: newline_def)+

lemma cmd_export_no_speed:
  "after (cmd_export E args) s (\<lambda>r s'.
     kmh_values (drop (length (stdout s)) (stdout s')) = [])"
  unfolding cmd_export_def
  by (rule after_rules conjI impI allI | simp add: newline_def)+

text \<open>
  Claim C5. Every number the subcommands print with the unit km/h is the float
  product of the parsed track's \<^verbatim>\<open>max_speed\<close> (metres per second) and the literal
  \<^verbatim>\<open>3.6\<close>; \<^verbatim>\<open>cmd_overlay\<close> and \<^verbatim>\<open>cmd_info\<close> print exactly one such number once the
  track is parsed, and the other subcommands print none. In binary64 arithmetic the
  literal is the float nearest to 3.6 and the product is rounded.
\<close>

theorem speed_displayed_in_kmh:
  "(\<forall>x \<in> set (kmh_values (output_of (cmd_overlay E args) s)) \<union>
          set (kmh_values (output_of (cmd_info E args) s)).
      \<exists>p t fs out. parse_srt E p (files s) = (Inr t, fs, out) \<and>
        x = float_mul (max_speed t) (float_lit (36 / 10))) \<and>
   (\<forall>p t fs out.
      Parse_srt p \<in> set (events_of (cmd_overlay E args) s) \<and>
      parse_srt E p (files s) = (Inr t, fs, out) \<longrightarrow>
      kmh_values (output_of (cmd_overlay E args) s) =
        [float_mul (max_speed t) (float_lit (36 / 10))]) \<and>
   (\<forall>p t fs out.
      Parse_srt p \<in> set (events_of (cmd_info E args) s) \<and>
      parse_srt E p (files s) = (Inr t, fs, out) \<longrightarrow>
      kmh_values (output_of (cmd_info E args) s) =
        [float_mul (max_speed t) (float_lit (36 / 10))]) \<and>
   kmh_values (output_of (cmd_overlay_only E args) s) = [] \<and>
   kmh_values (output_of (cmd_frames E args) s) = [] \<and>
   kmh_values (output_of (cmd_export E args) s) = [] \<and>
   float_lit (36 / 10) = Fin (8106479329266893 / 2251799813685248)"
  using cmd_overlay_speed [of E args s] cmd_info_speed [of E args s]
    cmd_overlay_only_no_speed [of E args s] cmd_frames_no_speed [of E args s]
    cmd_export_no_speed [of E args s] float_lit_3_6
  unfolding after_def output_of_def events_of_def
  by blast

lemma example_info_srt_events:
  "events_of (cmd_info example_package [''path'' \<mapsto> VStr ''v.SRT'']) example_state =
     [Parse_srt (Path ''v.SRT'')]"
  by (simp add: events_of_def cmd_info_def run_simps path_simps example_simps Let_def)

lemma float_mul_10_3_6: "float_mul (Fin 10) (float_lit (36 / 10)) = Fin 36"
proof -
  have r: "fl_round (10 * (8106479329266893 / 2251799813685248)) = Fin 36"
    by (rule fl_round_eval [where e = 5 and n = 5066549580791808 and m = 5066549580791808])
       simp_all
  show ?thesis
    unfolding float_lit_3_6 float_mul.simps by (rule r)
qed

theorem speed_displayed_in_kmh_witness:
  "Parse_srt (Path ''v.SRT'')
     \<in> set (events_of (cmd_info example_package [''path'' \<mapsto> VStr ''v.SRT''])
          example_state) \<and>
   parse_srt example_package (Path ''v.SRT'') (files example_state) =
     (Inr example_track, files example_state, []) \<and>
   max_speed example_track = Fin 10 \<and>
   kmh_values (output_of (cmd_info example_package [''path'' \<mapsto> VStr ''v.SRT''])
     example_state) = [Fin 36] \<and>
   Fin 36 \<in> set (kmh_values (output_of (cmd_info example_package
     [''path'' \<mapsto> VStr ''v.SRT'']) example_state))"
proof -
  have parsed: "parse_srt example_package (Path ''v.SRT'') (files example_state) =
      (Inr example_track, files example_state, [])"
    by (simp add: example_package_def)
  have speed: "max_speed example_track = Fin 10"
    by (simp add: example_track_def)
  from speed_displayed_in_kmh
    [of example_package "[''path'' \<mapsto> VStr ''v.SRT'']" example_state]
  have "kmh_values (output_of (cmd_info example_package [''path'' \<mapsto> VStr ''v.SRT''])
      example_state) = [float_mul (max_speed example_track) (float_lit (36 / 10))]"
    using parsed example_info_srt_events by auto
  then show ?thesis
    unfolding speed float_mul_10_3_6
    using parsed speed example_info_srt_events by simp
qed

section \<open>Properties of sampling\<close>

lemma bracket_finds_pair:
  "sorted (map start_time_s fs) \<Longrightarrow> Suc i < length fs \<Longrightarrow>
   start_time_s (fs ! i) < t \<Longrightarrow> t < start_time_s (fs ! Suc i) \<Longrightarrow>
   bracket t fs = Some (fs ! i, fs ! Suc i)"
proof (induction t fs arbitrary: i rule: bracket.induct)
  case (1 t f g rest)
  show ?case
  proof (cases i)
    case 0
    with "1.prems" show ?thesis by simp
  next
    case (Suc j)
    from "1.prems" Suc have later: "start_time_s ((g # rest) ! j) < t"
      and next_later: "t < start_time_s ((g # rest) ! Suc j)"
      and len: "Suc j < length (g # rest)"
      by simp_all
    from "1.prems"(1) have srt: "sorted (map start_time_s (g # rest))"
      by simp
    have "start_time_s g \<le> start_time_s ((g # rest) ! j)"
    proof (cases j)
      case 0
      then show ?thesis by simp
    next
      case (Suc k)
      with srt len show ?thesis by simp
    qed
    with later have "\<not> t < start_time_s g" by simp
    with "1.IH" [OF _ srt len later next_later] Suc show ?thesis by simp
  qed
qed simp_all

lemma altitude_interpolate:
  "altitude_m (interpolate t f g) =
     lerp_opt (altitude_m f) (altitude_m g)
       ((t - start_time_s f) / (start_time_s g - start_time_s f))"
  by (simp add: interpolate_def Let_def)

lemma sample_between:
  assumes srt: "sorted (map start_time_s fs)"
    and len: "Suc i < length fs"
    and lo: "start_time_s (fs ! i) < t"
    and hi: "t < start_time_s (fs ! Suc i)"
  shows "sample fs t = Some (interpolate t (fs ! i) (fs ! Suc i))"
proof -
  from len obtain f rest where fs: "fs = f # rest"
    by (cases fs) auto
  have "start_time_s f \<le> start_time_s (fs ! i)"
    using srt len fs by (cases i) (simp_all add: fs)
  with lo have not_first: "\<not> t \<le> start_time_s f" by simp
  have "start_time_s (fs ! Suc i) \<le> start_time_s (last fs)"
  proof -
    have "last fs = fs ! (length fs - 1)"
      using fs by (simp add: last_conv_nth)
    moreover have "map start_time_s fs ! Suc i \<le> map start_time_s fs ! (length fs - 1)"
      using srt len by (intro sorted_nth_mono) auto
    ultimately show ?thesis using len by simp
  qed
  with hi have not_last: "\<not> start_time_s (last fs) \<le> t" by simp
  from bracket_finds_pair [OF srt len lo hi] not_first not_last
  show ?thesis by (simp add: sample_def fs)
qed

text \<open>
  Claim C6. The three-cue track with altitudes 10, 20, 30 at start times 0, 1, 2 and
  final end time 3 samples to altitude 25 at 1.5 s; and in every track ordered by
  start time, a timestamp strictly between the start times of two consecutive frames
  that both carry an altitude samples to the exact linear interpolation of the two
  altitudes.
\<close>

theorem sample_linear_interpolation:
  "map_option altitude_m (sample three_cue_track (3 / 2)) = Some (Some 25) \<and>
   (\<forall>(fs :: telemetry_frame list) i t a b.
      sorted (map start_time_s fs) \<and> Suc i < length fs \<and>
      start_time_s (fs ! i) < t \<and> t < start_time_s (fs ! Suc i) \<and>
      altitude_m (fs ! i) = Some a \<and> altitude_m (fs ! Suc i) = Some b \<longrightarrow>
      map_option altitude_m (sample fs t) =
        Some (Some (a + (b - a) * ((t - start_time_s (fs ! i)) /
                                   (start_time_s (fs ! Suc i) - start_time_s (fs ! i))))))"
proof (intro conjI allI impI)
  show "map_option altitude_m (sample three_cue_track (3 / 2)) = Some (Some 25)"
    by (simp add: sample_def three_cue_track_def cue_def altitude_interpolate lerp_def)
next
  fix fs :: "telemetry_frame list" and i t a b
  assume h: "sorted (map start_time_s fs) \<and> Suc i < length fs \<and>
      start_time_s (fs ! i) < t \<and> t < start_time_s (fs ! Suc i) \<and>
      altitude_m (fs ! i) = Some a \<and> altitude_m (fs ! Suc i) = Some b"
  then have "sample fs t = Some (interpolate t (fs ! i) (fs ! Suc i))"
    by (intro sample_between) simp_all
  with h show "map_option altitude_m (sample fs t) =
        Some (Some (a + (b - a) * ((t - start_time_s (fs ! i)) /
                                   (start_time_s (fs ! Suc i) - start_time_s (fs ! i)))))"
    by (simp add: altitude_interpolate lerp_def)
qed

theorem sample_linear_interpolation_witness:
  "sorted (map start_time_s three_cue_track) \<and> Suc 1 < length three_cue_track \<and>
   start_time_s (three_cue_track ! 1) < 3 / 2 \<and>
   3 / 2 < start_time_s (three_cue_track ! Suc 1) \<and>
   altitude_m (three_cue_track ! 1) = Some 20 \<and>
   altitude_m (three_cue_track ! Suc 1) = Some 30 \<and>
   map_option altitude_m (sample three_cue_track (3 / 2)) = Some (Some (20 + (30 - 20) * ((3 / 2 - 1) / (2 - 1))))"
proof -
  have pre: "sorted (map start_time_s three_cue_track) \<and> Suc 1 < length three_cue_track \<and>
      start_time_s (three_cue_track ! 1) < 3 / 2 \<and>
      3 / 2 < start_time_s (three_cue_track ! Suc 1) \<and>
      altitude_m (three_cue_track ! 1) = Some 20 \<and>
      altitude_m (three_cue_track ! Suc 1) = Some 30"
    by (simp add: three_cue_track_def cue_def)
  from sample_linear_interpolation
  have "map_option altitude_m (sample three_cue_track (3 / 2)) =
        Some (Some (20 + (30 - 20) * ((3 / 2 - start_time_s (three_cue_track ! 1)) /
          (start_time_s (three_cue_track ! Suc 1) - start_time_s (three_cue_track ! 1)))))"
    using pre by blast
  then show ?thesis using pre by (simp add: three_cue_track_def cue_def)
qed

end
